theory Spec2Isabelle
  imports Main
begin

section \<open>JavaScript strings and JSON values\<close>

text \<open>
  A string is modelled by its UTF-8 bytes. Severity labels are compared after
  \<^verbatim>\<open>String.prototype.toUpperCase\<close>: \<open>toUpperCase\<close> rewrites the letters a-z to A-Z
  and the dotless i (U+0131, the bytes C4 B1) to I, and leaves every other byte as it
  is. The JavaScript method rewrites other non-ASCII letters too, but none of them to
  text made of the letters of CRITICAL, HIGH, MEDIUM or LOW, and the code uses an
  upper-cased string only to compare it with these labels or after it has been found
  equal to one of them.
\<close>

definition toUpperChar :: "char \<Rightarrow> char" where
  "toUpperChar c =
     (let n = (of_char c :: nat)
      in if 97 \<le> n \<and> n \<le> 122 then char_of (n - 32) else c)"

fun toUpperCase :: "string \<Rightarrow> string" where
  "toUpperCase (c # d # cs) =
     (if c = CHR 0xC4 \<and> d = CHR 0xB1 then CHR ''I'' # toUpperCase cs
      else toUpperChar c # toUpperCase (d # cs))"
| "toUpperCase [c] = [toUpperChar c]"
| "toUpperCase [] = []"

text \<open>
  The object literals the code builds and the bodies it answers with are JavaScript
  values: a property may hold \<^verbatim>\<open>undefined\<close>. \<^verbatim>\<open>JSON.stringify\<close> writes an object
  without the properties whose value is \<^verbatim>\<open>undefined\<close>, at every depth, and keeps
  \<^verbatim>\<open>null\<close>; \<open>stringify\<close> gives the document it writes.
\<close>

datatype json =
    JUndefined
  | JNull
  | JBool bool
  | JNumber int
  | JString string
  | JObject "(string \<times> json) list"

fun stringify :: "json \<Rightarrow> json" where
  "stringify (JObject kvs) =
     JObject (map (\<lambda>(k, v). (k, stringify v)) (filter (\<lambda>(k, v). v \<noteq> JUndefined) kvs))"
| "stringify v = v"

definition field :: "string \<Rightarrow> json \<Rightarrow> json option" where
  "field k j = (case j of JObject kvs \<Rightarrow> map_of kvs k | _ \<Rightarrow> None)"

text \<open>
  An optional string property of an interface (\<^verbatim>\<open>description?: string | null\<close>): it
  is missing, \<^verbatim>\<open>null\<close> or a string. \<open>jopt\<close> is its value inside an object literal;
  \<open>defined\<close> is what \<^verbatim>\<open>||\<close> and \<^verbatim>\<open>??\<close> see of it.
\<close>

datatype optstring = Undefined | Null | Str string

definition jopt :: "optstring \<Rightarrow> json" where
  "jopt v = (case v of Undefined \<Rightarrow> JUndefined | Null \<Rightarrow> JNull | Str s \<Rightarrow> JString s)"

definition defined :: "optstring \<Rightarrow> string option" where
  "defined v = (case v of Str s \<Rightarrow> Some s | _ \<Rightarrow> None)"

text \<open>A nullable column of a database row, as the ORM returns it: \<^verbatim>\<open>null\<close> or a string.\<close>

definition jnull :: "string option \<Rightarrow> json" where
  "jnull v = (case v of None \<Rightarrow> JNull | Some s \<Rightarrow> JString s)"

text \<open>
  Truthiness of an optional string, as \<^verbatim>\<open>!x\<close> and \<^verbatim>\<open>x || y\<close> test it: \<^verbatim>\<open>null\<close>,
  \<^verbatim>\<open>undefined\<close> and the empty string are falsy.
\<close>

definition truthy :: "string option \<Rightarrow> bool" where
  "truthy v = (case v of None \<Rightarrow> False | Some s \<Rightarrow> s \<noteq> [])"

text \<open>Template literals interpolate an integer in decimal.\<close>

definition digitChar :: "nat \<Rightarrow> char" where
  "digitChar d = char_of (48 + d)"

function showNat :: "nat \<Rightarrow> string" where
  "showNat n = (if n < 10 then [digitChar n] else showNat (n div 10) @ [digitChar (n mod 10)])"
  by pat_completeness auto
termination
  by (relation "measure (\<lambda>n. n)") auto

definition showInt :: "int \<Rightarrow> string" where
  "showInt i = (if i < 0 then CHR ''-'' # showNat (nat (- i)) else showNat (nat i))"

section \<open>Dates\<close>

text \<open>
  \<^verbatim>\<open>new Date()\<close> holds the current time as milliseconds since 1970-01-01T00:00:00Z,
  and \<^verbatim>\<open>toISOString\<close> writes it as \<^verbatim>\<open>YYYY-MM-DDTHH:mm:ss.sssZ\<close> in UTC, the year
  with a sign and six digits when it is outside 0-9999. \<open>civil\<close> turns a day number
  into year, month and day of the proleptic Gregorian calendar.
\<close>

definition pad2 :: "int \<Rightarrow> string" where
  "pad2 n = [digitChar (nat (n div 10 mod 10)), digitChar (nat (n mod 10))]"

definition pad3 :: "int \<Rightarrow> string" where
  "pad3 n = digitChar (nat (n div 100 mod 10)) # pad2 n"

definition pad4 :: "int \<Rightarrow> string" where
  "pad4 n = digitChar (nat (n div 1000 mod 10)) # pad3 n"

definition pad6 :: "int \<Rightarrow> string" where
  "pad6 n = digitChar (nat (n div 100000 mod 10)) # digitChar (nat (n div 10000 mod 10)) # pad4 n"

definition civil :: "int \<Rightarrow> int \<times> int \<times> int" where
  "civil days =
     (let z = days + 719468;
          era = z div 146097;
          doe = z - era * 146097;
          yoe = (doe - doe div 1460 + doe div 36524 - doe div 146096) div 365;
          doy = doe - (365 * yoe + yoe div 4 - yoe div 100);
          mp = (5 * doy + 2) div 153;
          d = doy - (153 * mp + 2) div 5 + 1;
          m = (if mp < 10 then mp + 3 else mp - 9);
          y = yoe + era * 400
      in (if m \<le> 2 then y + 1 else y, m, d))"

definition toISOString :: "int \<Rightarrow> string" where
  "toISOString ms =
     (let t = ms mod 86400000
      in case civil (ms div 86400000) of
           (y, m, d) \<Rightarrow>
             (if 0 \<le> y \<and> y \<le> 9999 then pad4 y
              else (if y < 0 then CHR ''-'' else CHR ''+'') # pad6 \<bar>y\<bar>)
             @ CHR ''-'' # pad2 m @ CHR ''-'' # pad2 d
             @ CHR ''T'' # pad2 (t div 3600000) @ CHR '':'' # pad2 (t div 60000 mod 60)
             @ CHR '':'' # pad2 (t div 1000 mod 60) @ CHR ''.'' # pad3 (t mod 1000) @ ''Z'')"

text \<open>
  The ISO 8601 shape of a date-time in UTC: a year of four digits, or a sign and six
  digits, then \<^verbatim>\<open>-MM-DDTHH:mm:ss.sssZ\<close>. \<open>digits n s\<close> reads \<open>n\<close> digits off \<open>s\<close> and
  \<open>lit c s\<close> the character \<open>c\<close>; each gives what is left.
\<close>

definition isDigit :: "char \<Rightarrow> bool" where
  "isDigit c = (48 \<le> (of_char c :: nat) \<and> (of_char c :: nat) \<le> 57)"

primrec digits :: "nat \<Rightarrow> string \<Rightarrow> string option" where
  "digits 0 s = Some s"
| "digits (Suc n) s =
     (case s of [] \<Rightarrow> None | c # cs \<Rightarrow> if isDigit c then digits n cs else None)"

definition lit :: "char \<Rightarrow> string \<Rightarrow> string option" where
  "lit c s = (case s of [] \<Rightarrow> None | x # xs \<Rightarrow> if x = c then Some xs else None)"

definition isoRest :: "string \<Rightarrow> bool" where
  "isoRest s =
     (Option.bind (lit CHR ''-'' s) (\<lambda>s.
      Option.bind (digits 2 s) (\<lambda>s.
      Option.bind (lit CHR ''-'' s) (\<lambda>s.
      Option.bind (digits 2 s) (\<lambda>s.
      Option.bind (lit CHR ''T'' s) (\<lambda>s.
      Option.bind (digits 2 s) (\<lambda>s.
      Option.bind (lit CHR '':'' s) (\<lambda>s.
      Option.bind (digits 2 s) (\<lambda>s.
      Option.bind (lit CHR '':'' s) (\<lambda>s.
      Option.bind (digits 2 s) (\<lambda>s.
      Option.bind (lit CHR ''.'' s) (\<lambda>s.
      Option.bind (digits 3 s) (\<lambda>s.
      lit CHR ''Z'' s)))))))))))) = Some [])"

definition isISO8601 :: "string \<Rightarrow> bool" where
  "isISO8601 s =
     (case s of
        [] \<Rightarrow> False
      | c # cs \<Rightarrow>
          if c = CHR ''+'' \<or> c = CHR ''-''
          then (case digits 6 cs of None \<Rightarrow> False | Some r \<Rightarrow> isoRest r)
          else (case digits 4 s of None \<Rightarrow> False | Some r \<Rightarrow> isoRest r))"

section \<open>Severity to priority\<close>

text \<open>
  \<^verbatim>\<open>mapSeverityToPriority\<close> is declared twice, in the integration library and in the
  single-alert route, with the same body: a \<^verbatim>\<open>switch\<close> on \<^verbatim>\<open>severity.toUpperCase()\<close>.
\<close>

definition mapSeverityToPriority :: "string \<Rightarrow> string" where
  "mapSeverityToPriority sev =
     (let s = toUpperCase sev
      in if s = ''CRITICAL'' then ''P1''
         else if s = ''HIGH'' then ''P2''
         else if s = ''MEDIUM'' then ''P3''
         else if s = ''LOW'' then ''P4''
         else ''P3'')"

section \<open>Data model\<close>

text \<open>
  \<^verbatim>\<open>interface Finding\<close> of the integration library. The optional fields are
  \<^verbatim>\<open>string | null | undefined\<close> in the source and \<open>optstring\<close> here.
\<close>

record Finding =
  severity :: string
  title :: string
  description :: optstring
  resource :: string
  resourceType :: optstring
  region :: optstring
  recommendation :: optstring

text \<open>
  \<^verbatim>\<open>interface AlertPayload\<close>, the request body of the single-alert route: the fields
  of a finding, the cloud provider and an optional account name. The interface declares
  \<^verbatim>\<open>severity\<close> as one of four upper-case literals and \<^verbatim>\<open>cloudProvider\<close> as one of
  three; the handler reads the body with \<^verbatim>\<open>request.json()\<close> and does not validate
  it, so at run time both are strings.
\<close>

record AlertPayload = Finding +
  cloudProvider :: string
  accountName :: optstring

text \<open>The \<^verbatim>\<open>userSettings\<close> row, with the columns the handlers read and write.\<close>

record UserSettings =
  userId :: string
  spikeWebhookUrl :: "string option"
  spikeEnabled :: bool
  spikeAlertOnCritical :: bool
  spikeAlertOnHigh :: bool
  slackWebhookUrl :: "string option"
  slackEnabled :: bool
  emailAlerts :: bool
  alertThreshold :: string

text \<open>A \<^verbatim>\<open>user\<close> row loaded with \<^verbatim>\<open>include: { settings: true }\<close>.\<close>

record User =
  user_id :: string
  user_email :: string
  settings :: "UserSettings option"

text \<open>The \<^verbatim>\<open>summary\<close> argument of \<^verbatim>\<open>sendAuditSummaryAlert\<close>.\<close>

record AuditSummary =
  critical :: int
  high :: int
  medium :: int
  low :: int
  total :: int

section \<open>Effects\<close>

text \<open>
  An awaited call either throws or returns. The handlers are run against an
  environment of collaborators (the ORM, \<^verbatim>\<open>fetch\<close>, the clock); what a collaborator
  answers may depend on everything done so far, so each takes the trace of earlier
  events. The clock \<open>now\<close> gives the time value of \<^verbatim>\<open>new Date()\<close>, in milliseconds
  since the epoch. The functions below take the trace and return it extended: the settings and
  user lookups, the webhook requests, the console lines and the pacing delays, in the
  order the code performs them.
\<close>

datatype Exn = Exn string

datatype 'a Outcome = Throws Exn | Returns 'a

record Response =
  resp_status :: nat
  resp_text :: "string Outcome"

text \<open>\<^verbatim>\<open>response.ok\<close>: the status is in the range 200-299.\<close>

definition ok :: "Response \<Rightarrow> bool" where
  "ok r = (200 \<le> resp_status r \<and> resp_status r \<le> 299)"

datatype LogArg = Text string | Caught Exn

datatype Event =
    FindSettings string
  | FindUser string
  | Fetch string json
  | ConsoleError string LogArg
  | ConsoleLog string
  | Delay nat

type_synonym Trace = "Event list"

record Env =
  userSettings_findUnique :: "Trace \<Rightarrow> string \<Rightarrow> UserSettings option Outcome"
  user_findUnique :: "Trace \<Rightarrow> string \<Rightarrow> User option Outcome"
  fetch :: "Trace \<Rightarrow> string \<Rightarrow> json \<Rightarrow> Response Outcome"
  now :: "Trace \<Rightarrow> int"

text \<open>What a trace shows: the webhook requests, and the users whose settings were read.\<close>

fun fetched :: "Trace \<Rightarrow> (string \<times> json) list" where
  "fetched [] = []"
| "fetched (Fetch url body # es) = (url, body) # fetched es"
| "fetched (e # es) = fetched es"

fun lookups :: "Trace \<Rightarrow> string list" where
  "lookups [] = []"
| "lookups (FindSettings uid # es) = uid # lookups es"
| "lookups (e # es) = lookups es"

section \<open>The integration library\<close>

text \<open>
  The check \<^verbatim>\<open>!settings?.spikeEnabled || !settings?.spikeWebhookUrl\<close>, which opens
  \<^verbatim>\<open>sendSpikeAlert\<close>, \<^verbatim>\<open>sendAuditSummaryAlert\<close> and the single-alert route: it
  yields the settings and the URL the code goes on with, or nothing when the code
  returns early.
\<close>

definition spikeTarget :: "UserSettings option \<Rightarrow> (UserSettings \<times> string) option" where
  "spikeTarget st =
     (case st of
        None \<Rightarrow> None
      | Some s \<Rightarrow>
          (case spikeWebhookUrl s of
             None \<Rightarrow> None
           | Some url \<Rightarrow> if \<not> spikeEnabled s \<or> url = [] then None else Some (s, url)))"

text \<open>\<^verbatim>\<open>a || b\<close> on an optional string \<open>a\<close>.\<close>

definition orElse :: "string option \<Rightarrow> string \<Rightarrow> string" where
  "orElse a b = (case a of None \<Rightarrow> b | Some x \<Rightarrow> if x = [] then b else x)"

text \<open>
  The object literal \<^verbatim>\<open>spikePayload\<close> of \<^verbatim>\<open>sendSpikeAlert\<close>; \<open>sev\<close> is the
  upper-cased severity and \<open>ts\<close> the value of \<^verbatim>\<open>new Date().toISOString()\<close>.
\<close>

definition spikePayload ::
    "string \<Rightarrow> string \<Rightarrow> string \<Rightarrow> 'a Finding_scheme \<Rightarrow> string \<Rightarrow> json" where
  "spikePayload cp acct sev finding ts =
     JObject
      [(''title'', JString (''['' @ cp @ ''] '' @ sev @ '': '' @ title finding)),
       (''message'', JString (orElse (defined (description finding)) (title finding))),
       (''status'', JString (if sev = ''CRITICAL'' then ''CRITICAL'' else ''WARNING'')),
       (''priority'', JString (mapSeverityToPriority sev)),
       (''source'', JString ''CloudGuard Security Dashboard''),
       (''timestamp'', JString ts),
       (''metadata'',
          JObject
           [(''severity'', JString (severity finding)),
            (''cloudProvider'', JString cp),
            (''resource'', JString (resource finding)),
            (''resourceType'', jopt (resourceType finding)),
            (''region'', jopt (region finding)),
            (''accountName'', JString acct),
            (''recommendation'', jopt (recommendation finding))])]"

text \<open>
  The request and the reading of its answer, as \<^verbatim>\<open>sendSpikeAlert\<close> and
  \<^verbatim>\<open>sendAuditSummaryAlert\<close> both do it inside their \<^verbatim>\<open>try\<close>; \<open>body\<close> is the
  document \<^verbatim>\<open>JSON.stringify(spikePayload)\<close> wrote. \<^verbatim>\<open>fetch\<close>, then
  \<^verbatim>\<open>response.ok\<close>; a response that is not ok has its text logged and gives false; a
  throw of \<^verbatim>\<open>fetch\<close> or of \<^verbatim>\<open>response.text()\<close> lands in the \<^verbatim>\<open>catch\<close>, which
  logs it and gives false. The three console texts are the caller's.
\<close>

definition postSpike ::
    "Env \<Rightarrow> string \<Rightarrow> json \<Rightarrow> string \<Rightarrow> string \<Rightarrow> string \<Rightarrow> Trace \<Rightarrow> bool \<times> Trace" where
  "postSpike env url body failedMsg caughtMsg sentMsg tr =
     (let tr1 = tr @ [Fetch url body]
      in case fetch env tr url body of
           Throws e \<Rightarrow> (False, tr1 @ [ConsoleError caughtMsg (Caught e)])
         | Returns response \<Rightarrow>
             if \<not> ok response
             then (case resp_text response of
                     Throws e \<Rightarrow> (False, tr1 @ [ConsoleError caughtMsg (Caught e)])
                   | Returns t \<Rightarrow> (False, tr1 @ [ConsoleError failedMsg (Text t)]))
             else (True, tr1 @ [ConsoleLog sentMsg]))"

definition sendSpikeAlert ::
    "Env \<Rightarrow> string \<Rightarrow> string \<Rightarrow> string \<Rightarrow> 'a Finding_scheme \<Rightarrow> Trace \<Rightarrow> bool \<times> Trace" where
  "sendSpikeAlert env uid cp acct finding tr =
     (let tr1 = tr @ [FindSettings uid]
      in case userSettings_findUnique env tr uid of
           Throws e \<Rightarrow> (False, tr1 @ [ConsoleError ''Error sending Spike.sh alert:'' (Caught e)])
         | Returns st \<Rightarrow>
             (case spikeTarget st of
                None \<Rightarrow> (False, tr1)
              | Some (s, url) \<Rightarrow>
                  (let sev = toUpperCase (severity finding)
                   in if sev = ''CRITICAL'' \<and> \<not> spikeAlertOnCritical s then (False, tr1)
                      else if sev = ''HIGH'' \<and> \<not> spikeAlertOnHigh s then (False, tr1)
                      else if sev \<noteq> ''CRITICAL'' \<and> sev \<noteq> ''HIGH'' then (False, tr1)
                      else postSpike env url
                             (stringify (spikePayload cp acct sev finding
                                           (toISOString (now env tr1))))
                             ''Spike.sh alert failed:''
                             ''Error sending Spike.sh alert:''
                             (''Spike.sh alert sent for '' @ sev @ '' finding: '' @ title finding)
                             tr1)))"

text \<open>
  \<^verbatim>\<open>sendBulkSpikeAlerts\<close>: the filter, then the \<^verbatim>\<open>for\<close> loop over the filtered
  list with its two counters and the 100 ms pause after each call.
\<close>

definition alertableFindings :: "'a Finding_scheme list \<Rightarrow> 'a Finding_scheme list" where
  "alertableFindings findings =
     filter (\<lambda>f. toUpperCase (severity f) = ''CRITICAL'' \<or> toUpperCase (severity f) = ''HIGH'')
       findings"

fun alertLoop ::
    "Env \<Rightarrow> string \<Rightarrow> string \<Rightarrow> string \<Rightarrow> 'a Finding_scheme list \<Rightarrow> nat \<Rightarrow> nat \<Rightarrow> Trace
       \<Rightarrow> (nat \<times> nat) \<times> Trace" where
  "alertLoop env uid cp acct [] sent skipped tr = ((sent, skipped), tr)"
| "alertLoop env uid cp acct (finding # rest) sent skipped tr =
     (case sendSpikeAlert env uid cp acct finding tr of
        (success, tr1) \<Rightarrow>
          if success
          then alertLoop env uid cp acct rest (sent + 1) skipped (tr1 @ [Delay 100])
          else alertLoop env uid cp acct rest sent (skipped + 1) (tr1 @ [Delay 100]))"

definition sendBulkSpikeAlerts ::
    "Env \<Rightarrow> string \<Rightarrow> string \<Rightarrow> string \<Rightarrow> 'a Finding_scheme list \<Rightarrow> Trace
       \<Rightarrow> (nat \<times> nat) \<times> Trace" where
  "sendBulkSpikeAlerts env uid cp acct findings tr =
     alertLoop env uid cp acct (alertableFindings findings) 0 0 tr"

text \<open>The object literal \<^verbatim>\<open>spikePayload\<close> of \<^verbatim>\<open>sendAuditSummaryAlert\<close>.\<close>

definition summaryPayload :: "string \<Rightarrow> string \<Rightarrow> AuditSummary \<Rightarrow> string \<Rightarrow> json" where
  "summaryPayload cp acct summary ts =
     JObject
      [(''title'',
          JString (''['' @ cp @ ''] Audit Complete - '' @ showInt (critical summary)
                     @ '' Critical, '' @ showInt (high summary) @ '' High findings'')),
       (''message'',
          JString (''Security audit completed for '' @ acct @ ''. Found ''
                     @ showInt (total summary) @ '' total findings: ''
                     @ showInt (critical summary) @ '' Critical, ''
                     @ showInt (high summary) @ '' High, ''
                     @ showInt (medium summary) @ '' Medium, ''
                     @ showInt (low summary) @ '' Low.'')),
       (''status'', JString (if critical summary > 0 then ''CRITICAL'' else ''WARNING'')),
       (''priority'', JString (if critical summary > 0 then ''P1'' else ''P2'')),
       (''source'', JString ''CloudGuard Security Dashboard''),
       (''timestamp'', JString ts),
       (''metadata'',
          JObject
           [(''cloudProvider'', JString cp),
            (''accountName'', JString acct),
            (''critical'', JNumber (critical summary)),
            (''high'', JNumber (high summary)),
            (''medium'', JNumber (medium summary)),
            (''low'', JNumber (low summary)),
            (''total'', JNumber (total summary)),
            (''type'', JString ''audit_summary'')])]"

definition sendAuditSummaryAlert ::
    "Env \<Rightarrow> string \<Rightarrow> string \<Rightarrow> string \<Rightarrow> AuditSummary \<Rightarrow> Trace \<Rightarrow> bool \<times> Trace" where
  "sendAuditSummaryAlert env uid cp acct summary tr =
     (let tr1 = tr @ [FindSettings uid]
      in case userSettings_findUnique env tr uid of
           Throws e \<Rightarrow>
             (False, tr1 @ [ConsoleError ''Error sending Spike.sh summary alert:'' (Caught e)])
         | Returns st \<Rightarrow>
             (case spikeTarget st of
                None \<Rightarrow> (False, tr1)
              | Some (s, url) \<Rightarrow>
                  if critical summary = 0 \<and> high summary = 0 then (False, tr1)
                  else postSpike env url
                         (stringify (summaryPayload cp acct summary
                                       (toISOString (now env tr1))))
                         ''Spike.sh summary alert failed:''
                         ''Error sending Spike.sh summary alert:''
                         (''Spike.sh audit summary alert sent for '' @ acct)
                         tr1))"

section \<open>The single-alert route\<close>

definition errorJson :: "string \<Rightarrow> json" where
  "errorJson msg = JObject [(''error'', JString msg)]"

definition messageJson :: "string \<Rightarrow> json" where
  "messageJson msg = JObject [(''message'', JString msg)]"

text \<open>
  The object literal \<^verbatim>\<open>spikePayload\<close> of the route. The title interpolates
  \<^verbatim>\<open>payload.severity\<close>, the severity as received; \<open>sev\<close>, its upper-cased form,
  decides the status.
\<close>

definition routeSpikePayload :: "'a AlertPayload_scheme \<Rightarrow> string \<Rightarrow> string \<Rightarrow> json" where
  "routeSpikePayload payload sev ts =
     JObject
      [(''title'',
          JString (''['' @ cloudProvider payload @ ''] '' @ severity payload @ '': ''
                     @ title payload)),
       (''message'', JString (orElse (defined (description payload)) (title payload))),
       (''status'', JString (if sev = ''CRITICAL'' then ''CRITICAL'' else ''WARNING'')),
       (''priority'', JString (mapSeverityToPriority (severity payload))),
       (''source'', JString ''CloudGuard Security Dashboard''),
       (''timestamp'', JString ts),
       (''metadata'',
          JObject
           [(''severity'', JString (severity payload)),
            (''cloudProvider'', JString (cloudProvider payload)),
            (''resource'', JString (resource payload)),
            (''resourceType'', jopt (resourceType payload)),
            (''region'', jopt (region payload)),
            (''accountName'', jopt (accountName payload)),
            (''recommendation'', jopt (recommendation payload))])]"

text \<open>
  The handler from the severity check to its last \<^verbatim>\<open>return\<close>, with the settings
  and the URL that passed the integration check. A throw lands in the handler's
  \<^verbatim>\<open>catch\<close>: a console line and a 500.
\<close>

definition spikeAlert_send ::
    "Env \<Rightarrow> UserSettings \<Rightarrow> string \<Rightarrow> 'a AlertPayload_scheme \<Rightarrow> Trace
       \<Rightarrow> (nat \<times> json) \<times> Trace" where
  "spikeAlert_send env s url payload tr =
     (let sev = toUpperCase (severity payload)
      in if sev = ''CRITICAL'' \<and> \<not> spikeAlertOnCritical s
         then ((200, messageJson ''Alert skipped - Critical alerts are disabled''), tr)
         else if sev = ''HIGH'' \<and> \<not> spikeAlertOnHigh s
         then ((200, messageJson ''Alert skipped - High alerts are disabled''), tr)
         else if sev = ''MEDIUM'' \<or> sev = ''LOW''
         then ((200, messageJson (''Alert skipped - '' @ sev @ '' alerts are not enabled'')), tr)
         else
           (let body = stringify (routeSpikePayload payload sev (toISOString (now env tr)));
                tr1 = tr @ [Fetch url body]
            in case fetch env tr url body of
                 Throws e \<Rightarrow>
                   ((500, errorJson ''Internal server error''),
                    tr1 @ [ConsoleError ''Spike alert API error:'' (Caught e)])
               | Returns response \<Rightarrow>
                   if \<not> ok response
                   then (case resp_text response of
                           Throws e \<Rightarrow>
                             ((500, errorJson ''Internal server error''),
                              tr1 @ [ConsoleError ''Spike alert API error:'' (Caught e)])
                         | Returns errorText \<Rightarrow>
                             ((500, errorJson ''Failed to send alert to Spike.sh''),
                              tr1 @ [ConsoleError ''Spike.sh alert failed:'' (Text errorText)]))
                   else ((200,
                          JObject [(''success'', JBool True),
                                   (''message'', JString ''Alert sent to Spike.sh successfully'')]),
                         tr1)))"

text \<open>
  \<^verbatim>\<open>POST\<close> of the single-alert route. \<open>session\<close> is \<^verbatim>\<open>session?.user?.email\<close>;
  \<open>request\<close> is what \<^verbatim>\<open>await request.json()\<close> gives. A body that cannot be
  parsed, or that has no \<^verbatim>\<open>severity\<close> string to upper-case, makes the handler throw
  after the integration check and is \<open>Throws\<close> here.
\<close>

definition spikeAlert_POST ::
    "Env \<Rightarrow> string option \<Rightarrow> 'a AlertPayload_scheme Outcome \<Rightarrow> Trace
       \<Rightarrow> (nat \<times> json) \<times> Trace" where
  "spikeAlert_POST env session request tr =
     (case session of
        None \<Rightarrow> ((401, errorJson ''Unauthorized''), tr)
      | Some em \<Rightarrow>
          if em = [] then ((401, errorJson ''Unauthorized''), tr)
          else
            (let tr1 = tr @ [FindUser em]
             in case user_findUnique env tr em of
                  Throws e \<Rightarrow>
                    ((500, errorJson ''Internal server error''),
                     tr1 @ [ConsoleError ''Spike alert API error:'' (Caught e)])
                | Returns None \<Rightarrow> ((404, errorJson ''User not found''), tr1)
                | Returns (Some user) \<Rightarrow>
                    (case spikeTarget (settings user) of
                       None \<Rightarrow> ((400, errorJson ''Spike.sh integration is not enabled''), tr1)
                     | Some (s, url) \<Rightarrow>
                         (case request of
                            Throws e \<Rightarrow>
                              ((500, errorJson ''Internal server error''),
                               tr1 @ [ConsoleError ''Spike alert API error:'' (Caught e)])
                          | Returns payload \<Rightarrow> spikeAlert_send env s url payload tr1))))"

section \<open>The settings route\<close>

text \<open>
  The two tables the settings handlers touch: users by e-mail (giving the user's id)
  and the settings row by user id. The upsert writes the second.
\<close>

record Db =
  users :: "string \<Rightarrow> string option"
  userSettings :: "string \<Rightarrow> UserSettings option"

text \<open>
  The destructured request body. A key that is missing or \<^verbatim>\<open>null\<close> is \<open>None\<close>
  (\<^verbatim>\<open>??\<close> and \<^verbatim>\<open>||\<close> treat the two alike); the values have the column's type, since
  the ORM rejects any other before it writes.
\<close>

record SettingsBody =
  body_spikeWebhookUrl :: "string option"
  body_spikeEnabled :: "bool option"
  body_spikeAlertOnCritical :: "bool option"
  body_spikeAlertOnHigh :: "bool option"
  body_slackWebhookUrl :: "string option"
  body_slackEnabled :: "bool option"
  body_emailAlerts :: "bool option"
  body_alertThreshold :: "string option"

text \<open>\<^verbatim>\<open>a ?? b\<close>, \<^verbatim>\<open>a || null\<close> on a string and \<^verbatim>\<open>a || false\<close> on a boolean.\<close>

definition nullish :: "'a option \<Rightarrow> 'a \<Rightarrow> 'a" where
  "nullish a b = (case a of None \<Rightarrow> b | Some v \<Rightarrow> v)"

definition orNull :: "string option \<Rightarrow> string option" where
  "orNull a = (case a of None \<Rightarrow> None | Some v \<Rightarrow> if v = [] then None else Some v)"

definition orFalse :: "bool option \<Rightarrow> bool" where
  "orFalse a = (case a of None \<Rightarrow> False | Some v \<Rightarrow> v)"

text \<open>The \<^verbatim>\<open>create\<close> argument of the upsert.\<close>

definition createData :: "string \<Rightarrow> SettingsBody \<Rightarrow> UserSettings" where
  "createData uid body =
     \<lparr>userId = uid,
      spikeWebhookUrl = orNull (body_spikeWebhookUrl body),
      spikeEnabled = orFalse (body_spikeEnabled body),
      spikeAlertOnCritical = nullish (body_spikeAlertOnCritical body) True,
      spikeAlertOnHigh = orFalse (body_spikeAlertOnHigh body),
      slackWebhookUrl = orNull (body_slackWebhookUrl body),
      slackEnabled = orFalse (body_slackEnabled body),
      emailAlerts = nullish (body_emailAlerts body) True,
      alertThreshold = orElse (body_alertThreshold body) ''CRITICAL''\<rparr>"

text \<open>
  The \<^verbatim>\<open>update\<close> argument applied to the stored row: \<^verbatim>\<open>x ?? undefined\<close> leaves a
  column as it is when the body has no value for it, and writes the value otherwise.
\<close>

definition updateData :: "SettingsBody \<Rightarrow> UserSettings \<Rightarrow> UserSettings" where
  "updateData body old =
     old\<lparr>spikeWebhookUrl :=
           (case body_spikeWebhookUrl body of None \<Rightarrow> spikeWebhookUrl old | Some v \<Rightarrow> Some v),
         spikeEnabled := nullish (body_spikeEnabled body) (spikeEnabled old),
         spikeAlertOnCritical :=
           nullish (body_spikeAlertOnCritical body) (spikeAlertOnCritical old),
         spikeAlertOnHigh := nullish (body_spikeAlertOnHigh body) (spikeAlertOnHigh old),
         slackWebhookUrl :=
           (case body_slackWebhookUrl body of None \<Rightarrow> slackWebhookUrl old | Some v \<Rightarrow> Some v),
         slackEnabled := nullish (body_slackEnabled body) (slackEnabled old),
         emailAlerts := nullish (body_emailAlerts body) (emailAlerts old),
         alertThreshold := nullish (body_alertThreshold body) (alertThreshold old)\<rparr>"

text \<open>
  \<^verbatim>\<open>prisma.userSettings.upsert\<close>: update the row of the user if there is one, create
  it otherwise.
\<close>

definition upsert :: "Db \<Rightarrow> string \<Rightarrow> SettingsBody \<Rightarrow> UserSettings \<times> Db" where
  "upsert db uid body =
     (let row = (case userSettings db uid of
                   None \<Rightarrow> createData uid body
                 | Some old \<Rightarrow> updateData body old)
      in (row, db\<lparr>userSettings := (userSettings db)(uid := Some row)\<rparr>))"

definition settingsJson :: "UserSettings \<Rightarrow> json" where
  "settingsJson row =
     JObject
      [(''userId'', JString (userId row)),
       (''spikeWebhookUrl'', jnull (spikeWebhookUrl row)),
       (''spikeEnabled'', JBool (spikeEnabled row)),
       (''spikeAlertOnCritical'', JBool (spikeAlertOnCritical row)),
       (''spikeAlertOnHigh'', JBool (spikeAlertOnHigh row)),
       (''slackWebhookUrl'', jnull (slackWebhookUrl row)),
       (''slackEnabled'', JBool (slackEnabled row)),
       (''emailAlerts'', JBool (emailAlerts row)),
       (''alertThreshold'', JString (alertThreshold row))]"

text \<open>The object literal \<^verbatim>\<open>GET\<close> answers with when the user has no settings row.\<close>

definition defaultSettings :: json where
  "defaultSettings =
     JObject
      [(''spikeWebhookUrl'', JString []),
       (''spikeEnabled'', JBool False),
       (''spikeAlertOnCritical'', JBool True),
       (''spikeAlertOnHigh'', JBool False),
       (''slackWebhookUrl'', JString []),
       (''slackEnabled'', JBool False),
       (''emailAlerts'', JBool True),
       (''alertThreshold'', JString ''CRITICAL'')]"

definition settings_GET :: "Db \<Rightarrow> string option \<Rightarrow> nat \<times> json" where
  "settings_GET db session =
     (case session of
        None \<Rightarrow> (401, errorJson ''Unauthorized'')
      | Some em \<Rightarrow>
          if em = [] then (401, errorJson ''Unauthorized'')
          else
            (case users db em of
               None \<Rightarrow> (404, errorJson ''User not found'')
             | Some uid \<Rightarrow>
                 (200,
                  JObject
                   [(''settings'',
                       (case userSettings db uid of
                          Some row \<Rightarrow> settingsJson row
                        | None \<Rightarrow> defaultSettings))])))"

text \<open>
  \<^verbatim>\<open>POST\<close> of the settings route; \<open>request\<close> is what \<^verbatim>\<open>await request.json()\<close>
  gives. Every early return and the \<^verbatim>\<open>catch\<close> leave the tables as they were.
\<close>

definition settings_POST ::
    "Db \<Rightarrow> string option \<Rightarrow> SettingsBody Outcome \<Rightarrow> (nat \<times> json) \<times> Db" where
  "settings_POST db session request =
     (case session of
        None \<Rightarrow> ((401, errorJson ''Unauthorized''), db)
      | Some em \<Rightarrow>
          if em = [] then ((401, errorJson ''Unauthorized''), db)
          else
            (case users db em of
               None \<Rightarrow> ((404, errorJson ''User not found''), db)
             | Some uid \<Rightarrow>
                 (case request of
                    Throws e \<Rightarrow> ((500, errorJson ''Internal server error''), db)
                  | Returns body \<Rightarrow>
                      (case upsert db uid body of
                         (row, db1) \<Rightarrow>
                           ((200,
                             JObject [(''settings'', settingsJson row),
                                      (''message'', JString ''Settings saved successfully'')]),
                            db1)))))"

section \<open>The decision in the specification's words\<close>

text \<open>
  \<open>shouldAlert\<close> is written from the specification, not from the code: false when the
  settings are missing, the integration is disabled or the webhook URL is absent (null
  or empty); false for CRITICAL when \<open>alertOnCritical\<close> is off; false for HIGH when
  \<open>alertOnHigh\<close> is off; false for MEDIUM and LOW; true otherwise. The severity label is
  read in upper case, as the code reads it.
\<close>

definition shouldAlert :: "UserSettings option \<Rightarrow> string \<Rightarrow> bool" where
  "shouldAlert st sev =
     (case st of
        None \<Rightarrow> False
      | Some s \<Rightarrow>
          if \<not> spikeEnabled s \<or> \<not> truthy (spikeWebhookUrl s) then False
          else if toUpperCase sev = ''CRITICAL'' \<and> \<not> spikeAlertOnCritical s then False
          else if toUpperCase sev = ''HIGH'' \<and> \<not> spikeAlertOnHigh s then False
          else if toUpperCase sev = ''MEDIUM'' \<or> toUpperCase sev = ''LOW'' then False
          else True)"

section \<open>Reading a trace and a payload\<close>

text \<open>The requests a run added to the trace it started from.\<close>

definition newFetched :: "Trace \<Rightarrow> Trace \<Rightarrow> (string \<times> json) list" where
  "newFetched tr tr1 = drop (length (fetched tr)) (fetched tr1)"

definition newLookups :: "Trace \<Rightarrow> Trace \<Rightarrow> string list" where
  "newLookups tr tr1 = drop (length (lookups tr)) (lookups tr1)"

text \<open>The severity a finding alert carries in its metadata.\<close>

definition payloadSeverity :: "json \<Rightarrow> string option" where
  "payloadSeverity body =
     (case field ''metadata'' body of
        Some m \<Rightarrow> (case field ''severity'' m of Some (JString s) \<Rightarrow> Some s | _ \<Rightarrow> None)
      | None \<Rightarrow> None)"

section \<open>Sample inputs\<close>

definition settingsOn :: UserSettings where
  "settingsOn =
     \<lparr>userId = ''u1'',
      spikeWebhookUrl = Some ''https://hooks.example/spike'',
      spikeEnabled = True,
      spikeAlertOnCritical = True,
      spikeAlertOnHigh = True,
      slackWebhookUrl = None,
      slackEnabled = False,
      emailAlerts = True,
      alertThreshold = ''CRITICAL''\<rparr>"

text \<open>
  An environment in which every lookup finds the given settings (and a user holding
  them) and every request is answered with the given status and the text \<open>''reply''\<close>.
\<close>

definition envWith :: "UserSettings option \<Rightarrow> nat \<Rightarrow> Env" where
  "envWith st code =
     \<lparr>userSettings_findUnique = (\<lambda>tr uid. Returns st),
      user_findUnique =
        (\<lambda>tr em. Returns (Some \<lparr>user_id = ''u1'', user_email = em, settings = st\<rparr>)),
      fetch = (\<lambda>tr url body. Returns \<lparr>resp_status = code, resp_text = Returns ''reply''\<rparr>),
      now = (\<lambda>tr. 1714557600000)\<rparr>"

text \<open>The same, with a network that is down: every request throws.\<close>

definition envDown :: "UserSettings option \<Rightarrow> Env" where
  "envDown st = (envWith st 0)\<lparr>fetch := (\<lambda>tr url body. Throws (Exn ''ECONNRESET''))\<rparr>"

text \<open>
  A finding as the audit tables hold it (no region, no recommendation: \<^verbatim>\<open>null\<close>) and a
  request body of the single-alert route that leaves \<^verbatim>\<open>region\<close> and
  \<^verbatim>\<open>recommendation\<close> out.
\<close>

definition sampleFinding :: "string \<Rightarrow> optstring \<Rightarrow> Finding" where
  "sampleFinding sev desc =
     \<lparr>severity = sev,
      title = ''Open bucket'',
      description = desc,
      resource = ''bucket-1'',
      resourceType = Str ''S3'',
      region = Null,
      recommendation = Null\<rparr>"

definition samplePayload :: "string \<Rightarrow> optstring \<Rightarrow> AlertPayload" where
  "samplePayload sev desc =
     \<lparr>severity = sev,
      title = ''Open bucket'',
      description = desc,
      resource = ''bucket-1'',
      resourceType = Str ''S3'',
      region = Undefined,
      recommendation = Undefined,
      cloudProvider = ''AWS'',
      accountName = Str ''prod''\<rparr>"

text \<open>
  A database with one user and no settings row, the body with every key omitted, and
  the bodies whose only key is an empty \<^verbatim>\<open>spikeWebhookUrl\<close> or an empty
  \<^verbatim>\<open>alertThreshold\<close>.
\<close>

definition dbNew :: Db where
  "dbNew =
     \<lparr>users = (\<lambda>e. if e = ''ann@example.org'' then Some ''u1'' else None),
      userSettings = (\<lambda>u. None)\<rparr>"

definition emptyBody :: SettingsBody where
  "emptyBody =
     \<lparr>body_spikeWebhookUrl = None,
      body_spikeEnabled = None,
      body_spikeAlertOnCritical = None,
      body_spikeAlertOnHigh = None,
      body_slackWebhookUrl = None,
      body_slackEnabled = None,
      body_emailAlerts = None,
      body_alertThreshold = None\<rparr>"

definition emptyUrlBody :: SettingsBody where
  "emptyUrlBody = emptyBody\<lparr>body_spikeWebhookUrl := Some []\<rparr>"

definition emptyThresholdBody :: SettingsBody where
  "emptyThresholdBody = emptyBody\<lparr>body_alertThreshold := Some []\<rparr>"

section \<open>Properties\<close>

lemma toUpperChar_idem: "toUpperChar (toUpperChar c) = toUpperChar c"
  by (auto simp: toUpperChar_def Let_def)

lemma toUpperChar_high: "128 \<le> (of_char c :: nat) \<Longrightarrow> toUpperChar c = c"
  by (simp add: toUpperChar_def Let_def)

lemma toUpperChar_range:
  "(of_char (toUpperChar c) :: nat) = 196 \<longleftrightarrow> (of_char c :: nat) = 196"
  "(of_char (toUpperChar c) :: nat) = 177 \<longleftrightarrow> (of_char c :: nat) = 177"
  by (auto simp: toUpperChar_def Let_def)

lemma toUpperChar_C4: "toUpperChar c = CHR 0xC4 \<longleftrightarrow> c = CHR 0xC4"
proof -
  have "toUpperChar c = CHR 0xC4 \<longleftrightarrow> (of_char (toUpperChar c) :: nat) = of_char (CHR 0xC4)"
    by (simp only: of_char_eq_iff)
  also have "\<dots> \<longleftrightarrow> (of_char c :: nat) = of_char (CHR 0xC4)"
    using toUpperChar_range(1) [of c] by simp
  also have "\<dots> \<longleftrightarrow> c = CHR 0xC4"
    by (simp only: of_char_eq_iff)
  finally show ?thesis .
qed

lemma toUpperChar_B1: "toUpperChar c = CHR 0xB1 \<longleftrightarrow> c = CHR 0xB1"
proof -
  have "toUpperChar c = CHR 0xB1 \<longleftrightarrow> (of_char (toUpperChar c) :: nat) = of_char (CHR 0xB1)"
    by (simp only: of_char_eq_iff)
  also have "\<dots> \<longleftrightarrow> (of_char c :: nat) = of_char (CHR 0xB1)"
    using toUpperChar_range(2) [of c] by simp
  also have "\<dots> \<longleftrightarrow> c = CHR 0xB1"
    by (simp only: of_char_eq_iff)
  finally show ?thesis .
qed

lemma toUpperCase_cons:
  "c \<noteq> CHR 0xC4 \<or> (\<forall>r. xs \<noteq> CHR 0xB1 # r) \<Longrightarrow>
   toUpperCase (c # xs) = toUpperChar c # toUpperCase xs"
  by (cases xs) auto

lemma toUpperCase_head:
  "toUpperCase xs = CHR 0xB1 # ys \<Longrightarrow> \<exists>r. xs = CHR 0xB1 # r"
  by (induction xs rule: toUpperCase.induct) (auto simp: toUpperChar_B1 split: if_splits)

lemma toUpperCase_idem: "toUpperCase (toUpperCase s) = toUpperCase s"
proof (induction s rule: toUpperCase.induct)
  case (1 c d cs)
  show ?case
  proof (cases "c = CHR 0xC4 \<and> d = CHR 0xB1")
    case True
    with 1 show ?thesis
      by (simp add: toUpperCase_cons toUpperChar_def)
  next
    case False
    then have step: "toUpperCase (c # d # cs) = toUpperChar c # toUpperCase (d # cs)"
      by auto
    from False have
      "toUpperChar c \<noteq> CHR 0xC4 \<or> (\<forall>r. toUpperCase (d # cs) \<noteq> CHR 0xB1 # r)"
      using toUpperCase_head [of "d # cs"] by (auto simp: toUpperChar_C4)
    from toUpperCase_cons [OF this] 1(2) False show ?thesis
      unfolding step by (simp add: toUpperChar_idem)
  qed
next
  case (2 c)
  show ?case by (simp add: toUpperChar_idem)
next
  case 3
  show ?case by simp
qed

subsection \<open>Dates\<close>

lemma isDigit_digitChar: "d < 10 \<Longrightarrow> isDigit (digitChar d)"
  by (simp add: isDigit_def digitChar_def)

lemma isDigit_digit_int: "isDigit (digitChar (nat (n mod 10)))"
  by (rule isDigit_digitChar) simp

lemma digits_pad2: "digits 2 (pad2 n @ r) = Some r"
  by (simp add: pad2_def numeral_2_eq_2 isDigit_digit_int)

lemma digits_pad3: "digits 3 (pad3 n @ r) = Some r"
  by (simp add: pad3_def pad2_def numeral_3_eq_3 isDigit_digit_int)

lemma digits_pad4: "digits 4 (pad4 n @ r) = Some r"
  by (simp add: pad4_def pad3_def pad2_def eval_nat_numeral isDigit_digit_int)

lemma digits_pad6: "digits 6 (pad6 n @ r) = Some r"
  by (simp add: pad6_def pad4_def pad3_def pad2_def eval_nat_numeral isDigit_digit_int)

lemma lit_cons: "lit c (c # r) = Some r"
  by (simp add: lit_def)

lemma isoRest_shape:
  "isoRest (CHR ''-'' # pad2 m @ CHR ''-'' # pad2 d
             @ CHR ''T'' # pad2 h @ CHR '':'' # pad2 mi
             @ CHR '':'' # pad2 s @ CHR ''.'' # pad3 f @ ''Z'')"
  by (simp add: isoRest_def lit_cons digits_pad2 digits_pad3)

lemma pad4_not_sign: "hd (pad4 y) \<noteq> CHR ''+'' \<and> hd (pad4 y) \<noteq> CHR ''-''"
  using isDigit_digit_int [of "y div 1000"] by (auto simp: pad4_def isDigit_def)

lemma toISOString_iso: "isISO8601 (toISOString ms)"
proof -
  obtain y m d where c: "civil (ms div 86400000) = (y, m, d)"
    by (cases "civil (ms div 86400000)") auto
  let ?rest = "\<lambda>t. CHR ''-'' # pad2 m @ CHR ''-'' # pad2 d
             @ CHR ''T'' # pad2 (t div 3600000) @ CHR '':'' # pad2 (t div 60000 mod 60)
             @ CHR '':'' # pad2 (t div 1000 mod 60) @ CHR ''.'' # pad3 (t mod 1000) @ ''Z''"
  show ?thesis
  proof (cases "0 \<le> y \<and> y \<le> 9999")
    case True
    then have s: "toISOString ms = pad4 y @ ?rest (ms mod 86400000)"
      by (simp add: toISOString_def c Let_def)
    obtain a b where p: "pad4 y = a # b" by (simp add: pad4_def)
    with pad4_not_sign [of y] have a: "a \<noteq> CHR ''+''" "a \<noteq> CHR ''-''" by simp_all
    have "digits 4 (pad4 y @ ?rest (ms mod 86400000)) = Some (?rest (ms mod 86400000))"
      by (rule digits_pad4)
    with a p show ?thesis
      unfolding s isISO8601_def by (simp add: isoRest_shape)
  next
    case False
    then have s: "toISOString ms
        = (if y < 0 then CHR ''-'' else CHR ''+'') # pad6 \<bar>y\<bar> @ ?rest (ms mod 86400000)"
      by (auto simp add: toISOString_def c Let_def)
    have "digits 6 (pad6 \<bar>y\<bar> @ ?rest (ms mod 86400000)) = Some (?rest (ms mod 86400000))"
      by (rule digits_pad6)
    then show ?thesis
      unfolding s isISO8601_def by (simp add: isoRest_shape)
  qed
qed

text \<open>The model of \<^verbatim>\<open>toISOString\<close> on known instants, a leap day among them.\<close>

lemma toISOString_samples:
  "toISOString 0 = ''1970-01-01T00:00:00.000Z''"
  "toISOString 1714557600000 = ''2024-05-01T10:00:00.000Z''"
  "toISOString 1709210096789 = ''2024-02-29T12:34:56.789Z''"
  "toISOString (- 1) = ''1969-12-31T23:59:59.999Z''"
  "toISOString 8640000000000000 = ''+275760-09-13T00:00:00.000Z''"
  by code_simp+

subsection \<open>Priorities\<close>

lemma mapSeverityToPriority_upper:
  "mapSeverityToPriority (toUpperCase s) = mapSeverityToPriority s"
  by (simp add: mapSeverityToPriority_def toUpperCase_idem)

text \<open>
  C5. \<open>mapSeverityToPriority\<close> is total: every string is mapped to one of P1, P2, P3,
  P4. The label is matched on its upper-cased form, so two strings that differ only in
  the case of their letters get the same priority: CRITICAL gives P1, HIGH gives P2,
  MEDIUM gives P3, LOW gives P4, and every other string gives P3.
\<close>

theorem mapSeverityToPriority_total:
  "mapSeverityToPriority s \<in> {''P1'', ''P2'', ''P3'', ''P4''}
   \<and> (toUpperCase s = ''CRITICAL'' \<longrightarrow> mapSeverityToPriority s = ''P1'')
   \<and> (toUpperCase s = ''HIGH'' \<longrightarrow> mapSeverityToPriority s = ''P2'')
   \<and> (toUpperCase s = ''MEDIUM'' \<longrightarrow> mapSeverityToPriority s = ''P3'')
   \<and> (toUpperCase s = ''LOW'' \<longrightarrow> mapSeverityToPriority s = ''P4'')
   \<and> (toUpperCase s \<notin> {''CRITICAL'', ''HIGH'', ''MEDIUM'', ''LOW''}
        \<longrightarrow> mapSeverityToPriority s = ''P3'')
   \<and> (\<forall>t. toUpperCase t = toUpperCase s
        \<longrightarrow> mapSeverityToPriority t = mapSeverityToPriority s)"
  by (simp add: mapSeverityToPriority_def Let_def)

theorem mapSeverityToPriority_total_witness:
  "toUpperCase ''critical'' = ''CRITICAL'' \<and> mapSeverityToPriority ''critical'' = ''P1''
   \<and> toUpperCase ''High'' = ''HIGH'' \<and> mapSeverityToPriority ''High'' = ''P2''
   \<and> toUpperCase ''medium'' = ''MEDIUM'' \<and> mapSeverityToPriority ''medium'' = ''P3''
   \<and> toUpperCase ''LOW'' = ''LOW'' \<and> mapSeverityToPriority ''LOW'' = ''P4''
   \<and> toUpperCase ''info'' \<notin> {''CRITICAL'', ''HIGH'', ''MEDIUM'', ''LOW''}
   \<and> mapSeverityToPriority ''info'' = ''P3''
   \<and> toUpperCase ''HIGH'' = toUpperCase ''high''
   \<and> mapSeverityToPriority ''HIGH'' = mapSeverityToPriority ''high''"
proof -
  have u1: "toUpperCase ''critical'' = ''CRITICAL''" by code_simp
  have u2: "toUpperCase ''High'' = ''HIGH''" by code_simp
  have u3: "toUpperCase ''medium'' = ''MEDIUM''" by code_simp
  have u4: "toUpperCase ''LOW'' = ''LOW''" by code_simp
  have u5: "toUpperCase ''info'' \<notin> {''CRITICAL'', ''HIGH'', ''MEDIUM'', ''LOW''}" by code_simp
  have u6: "toUpperCase ''HIGH'' = toUpperCase ''high''" by code_simp
  have w1: "mapSeverityToPriority ''critical'' = ''P1''"
    using mapSeverityToPriority_total [of "''critical''"] u1 by simp
  have w2: "mapSeverityToPriority ''High'' = ''P2''"
    using mapSeverityToPriority_total [of "''High''"] u2 by simp
  have w3: "mapSeverityToPriority ''medium'' = ''P3''"
    using mapSeverityToPriority_total [of "''medium''"] u3 by simp
  have w4: "mapSeverityToPriority ''LOW'' = ''P4''"
    using mapSeverityToPriority_total [of "''LOW''"] u4 by simp
  have w5: "mapSeverityToPriority ''info'' = ''P3''"
    using mapSeverityToPriority_total [of "''info''"] u5 by simp
  have w6: "mapSeverityToPriority ''HIGH'' = mapSeverityToPriority ''high''"
  proof -
    from mapSeverityToPriority_total [of "''high''"]
    have a: "\<forall>t. toUpperCase t = toUpperCase ''high''
               \<longrightarrow> mapSeverityToPriority t = mapSeverityToPriority ''high''"
      by (elim conjE)
    from a [rule_format, OF u6] show ?thesis .
  qed
  show ?thesis
    by (intro conjI) (rule u1 w1 u2 w2 u3 w3 u4 w4 u5 w5 u6 w6)+
qed


subsection \<open>Traces\<close>

lemma fetched_append: "fetched (a @ b) = fetched a @ fetched b"
  by (induction a rule: fetched.induct) simp_all

lemma lookups_append: "lookups (a @ b) = lookups a @ lookups b"
  by (induction a rule: lookups.induct) simp_all

lemma newFetched_append: "newFetched tr (tr @ evs) = fetched evs"
  by (simp add: newFetched_def fetched_append)

lemma newLookups_append: "newLookups tr (tr @ evs) = lookups evs"
  by (simp add: newLookups_def lookups_append)

subsection \<open>The request and its answer\<close>

lemma postSpike_extends:
  "\<exists>evs. snd (postSpike env url body m1 m2 m3 tr) = tr @ Fetch url body # evs
         \<and> fetched evs = [] \<and> lookups evs = []"
  by (auto simp: postSpike_def Let_def split: Outcome.splits)

lemma postSpike_fst:
  "fst (postSpike env url body m1 m2 m3 tr)
     = (case fetch env tr url body of Throws e \<Rightarrow> False | Returns r \<Rightarrow> ok r)"
  by (simp add: postSpike_def Let_def split: Outcome.splits)

subsection \<open>The branches of sendSpikeAlert\<close>

lemma sendSpikeAlert_throws:
  "userSettings_findUnique env tr uid = Throws e \<Longrightarrow>
   sendSpikeAlert env uid cp acct f tr
     = (False, tr @ [FindSettings uid, ConsoleError ''Error sending Spike.sh alert:'' (Caught e)])"
  by (simp add: sendSpikeAlert_def Let_def)

lemma sendSpikeAlert_unconfigured:
  "userSettings_findUnique env tr uid = Returns st \<Longrightarrow> spikeTarget st = None \<Longrightarrow>
   sendSpikeAlert env uid cp acct f tr = (False, tr @ [FindSettings uid])"
  by (simp add: sendSpikeAlert_def Let_def)

lemma sendSpikeAlert_skips:
  "userSettings_findUnique env tr uid = Returns st \<Longrightarrow> spikeTarget st = Some (s, url) \<Longrightarrow>
   \<not> ((toUpperCase (severity f) = ''CRITICAL'' \<and> spikeAlertOnCritical s)
       \<or> (toUpperCase (severity f) = ''HIGH'' \<and> spikeAlertOnHigh s)) \<Longrightarrow>
   sendSpikeAlert env uid cp acct f tr = (False, tr @ [FindSettings uid])"
  by (simp add: sendSpikeAlert_def Let_def)

lemma sendSpikeAlert_posts:
  "userSettings_findUnique env tr uid = Returns st \<Longrightarrow> spikeTarget st = Some (s, url) \<Longrightarrow>
   (toUpperCase (severity f) = ''CRITICAL'' \<and> spikeAlertOnCritical s)
     \<or> (toUpperCase (severity f) = ''HIGH'' \<and> spikeAlertOnHigh s) \<Longrightarrow>
   sendSpikeAlert env uid cp acct f tr
     = postSpike env url
         (stringify (spikePayload cp acct (toUpperCase (severity f)) f
            (toISOString (now env (tr @ [FindSettings uid])))))
         ''Spike.sh alert failed:''
         ''Error sending Spike.sh alert:''
         (''Spike.sh alert sent for '' @ toUpperCase (severity f) @ '' finding: '' @ title f)
         (tr @ [FindSettings uid])"
  by (auto simp add: sendSpikeAlert_def Let_def)

lemma sendSpikeAlert_shape:
  "(\<exists>url body m1 m2 m3.
       sendSpikeAlert env uid cp acct f tr
         = postSpike env url body m1 m2 m3 (tr @ [FindSettings uid]))
   \<or> (\<exists>evs. sendSpikeAlert env uid cp acct f tr = (False, tr @ FindSettings uid # evs)
            \<and> fetched evs = [] \<and> lookups evs = [])"
proof (cases "userSettings_findUnique env tr uid")
  case (Throws e)
  then show ?thesis by (simp add: sendSpikeAlert_throws)
next
  case (Returns st)
  show ?thesis
  proof (cases "spikeTarget st")
    case None
    with Returns show ?thesis by (simp add: sendSpikeAlert_unconfigured)
  next
    case (Some p)
    then obtain s url where tgt: "spikeTarget st = Some (s, url)"
      by (cases p) simp
    show ?thesis
    proof (cases "(toUpperCase (severity f) = ''CRITICAL'' \<and> spikeAlertOnCritical s)
                    \<or> (toUpperCase (severity f) = ''HIGH'' \<and> spikeAlertOnHigh s)")
      case True
      from sendSpikeAlert_posts [OF Returns tgt True, of cp acct] show ?thesis by blast
    next
      case False
      from sendSpikeAlert_skips [OF Returns tgt False, of cp acct] show ?thesis by simp
    qed
  qed
qed

text \<open>
  C6. The webhook send returns true only when \<^verbatim>\<open>fetch\<close> returned a response whose
  status is in 200-299. On any other status it logs the response text and returns
  false. When \<^verbatim>\<open>fetch\<close> throws, or reading the text of a failed response throws, the
  \<^verbatim>\<open>catch\<close> logs the exception and the result is false. In every case the result is a
  boolean and the request was made once; so \<^verbatim>\<open>sendSpikeAlert\<close> returns true only
  after a request that was answered with a 2xx status.
\<close>

theorem postSpike_result:
  "(fst (postSpike env url body failedMsg caughtMsg sentMsg tr)
      \<longrightarrow> (\<exists>r. fetch env tr url body = Returns r
               \<and> 200 \<le> resp_status r \<and> resp_status r \<le> 299))
   \<and> (\<forall>r. fetch env tr url body = Returns r \<and> 200 \<le> resp_status r \<and> resp_status r \<le> 299
        \<longrightarrow> postSpike env url body failedMsg caughtMsg sentMsg tr
              = (True, tr @ [Fetch url body, ConsoleLog sentMsg]))
   \<and> (\<forall>r t. fetch env tr url body = Returns r
          \<and> \<not> (200 \<le> resp_status r \<and> resp_status r \<le> 299) \<and> resp_text r = Returns t
        \<longrightarrow> postSpike env url body failedMsg caughtMsg sentMsg tr
              = (False, tr @ [Fetch url body, ConsoleError failedMsg (Text t)]))
   \<and> (\<forall>r e. fetch env tr url body = Returns r
          \<and> \<not> (200 \<le> resp_status r \<and> resp_status r \<le> 299) \<and> resp_text r = Throws e
        \<longrightarrow> postSpike env url body failedMsg caughtMsg sentMsg tr
              = (False, tr @ [Fetch url body, ConsoleError caughtMsg (Caught e)]))
   \<and> (\<forall>e. fetch env tr url body = Throws e
        \<longrightarrow> postSpike env url body failedMsg caughtMsg sentMsg tr
              = (False, tr @ [Fetch url body, ConsoleError caughtMsg (Caught e)]))
   \<and> (fst (sendSpikeAlert env uid cp acct finding tr)
        \<longrightarrow> (\<exists>u b r. newFetched tr (snd (sendSpikeAlert env uid cp acct finding tr)) = [(u, b)]
                 \<and> fetch env (tr @ [FindSettings uid]) u b = Returns r
                 \<and> 200 \<le> resp_status r \<and> resp_status r \<le> 299))"
proof (intro conjI)
  show "fst (postSpike env url body failedMsg caughtMsg sentMsg tr)
      \<longrightarrow> (\<exists>r. fetch env tr url body = Returns r
               \<and> 200 \<le> resp_status r \<and> resp_status r \<le> 299)"
    by (auto simp: postSpike_fst ok_def split: Outcome.splits)
next
  show "fst (sendSpikeAlert env uid cp acct finding tr)
        \<longrightarrow> (\<exists>u b r. newFetched tr (snd (sendSpikeAlert env uid cp acct finding tr)) = [(u, b)]
                 \<and> fetch env (tr @ [FindSettings uid]) u b = Returns r
                 \<and> 200 \<le> resp_status r \<and> resp_status r \<le> 299)"
  proof
    assume t: "fst (sendSpikeAlert env uid cp acct finding tr)"
    let ?tr1 = "tr @ [FindSettings uid]"
    from t sendSpikeAlert_shape [of env uid cp acct finding tr]
    obtain u b m1 m2 m3 where
      eq: "sendSpikeAlert env uid cp acct finding tr = postSpike env u b m1 m2 m3 ?tr1"
      by auto
    from postSpike_extends [of env u b m1 m2 m3 ?tr1]
    obtain evs where
      "snd (postSpike env u b m1 m2 m3 ?tr1) = ?tr1 @ Fetch u b # evs" "fetched evs = []"
      by blast
    with eq have
      "snd (sendSpikeAlert env uid cp acct finding tr) = tr @ ([FindSettings uid] @ Fetch u b # evs)"
      "fetched evs = []"
      by simp_all
    then have nf: "newFetched tr (snd (sendSpikeAlert env uid cp acct finding tr)) = [(u, b)]"
      by (simp only: newFetched_append) simp
    from t eq have "case fetch env ?tr1 u b of Throws e \<Rightarrow> False | Returns r \<Rightarrow> ok r"
      by (simp add: postSpike_fst)
    then obtain r where "fetch env ?tr1 u b = Returns r" "ok r"
      by (auto split: Outcome.splits)
    with nf show "\<exists>u b r. newFetched tr (snd (sendSpikeAlert env uid cp acct finding tr)) = [(u, b)]
                 \<and> fetch env (tr @ [FindSettings uid]) u b = Returns r
                 \<and> 200 \<le> resp_status r \<and> resp_status r \<le> 299"
      by (auto simp: ok_def)
  qed
qed (simp_all add: postSpike_def Let_def ok_def)


theorem postSpike_result_witness:
  "postSpike (envWith None 500) ''https://hooks.example/spike'' JNull ''failed'' ''caught'' ''sent'' []
     = (False, [Fetch ''https://hooks.example/spike'' JNull, ConsoleError ''failed'' (Text ''reply'')])
   \<and> postSpike (envWith None 204) ''https://hooks.example/spike'' JNull ''failed'' ''caught'' ''sent'' []
     = (True, [Fetch ''https://hooks.example/spike'' JNull, ConsoleLog ''sent''])
   \<and> postSpike (envDown None) ''https://hooks.example/spike'' JNull ''failed'' ''caught'' ''sent'' []
     = (False, [Fetch ''https://hooks.example/spike'' JNull,
                ConsoleError ''caught'' (Caught (Exn ''ECONNRESET''))])"
proof -
  let ?u = "''https://hooks.example/spike''"
  have f500: "fetch (envWith None 500) [] ?u JNull
                = Returns \<lparr>resp_status = 500, resp_text = Returns ''reply''\<rparr>"
    by (simp add: envWith_def)
  have f204: "fetch (envWith None 204) [] ?u JNull
                = Returns \<lparr>resp_status = 204, resp_text = Returns ''reply''\<rparr>"
    by (simp add: envWith_def)
  have fdown: "fetch (envDown None) [] ?u JNull = Throws (Exn ''ECONNRESET'')"
    by (simp add: envDown_def)
  have a: "postSpike (envWith None 500) ?u JNull ''failed'' ''caught'' ''sent'' []
     = (False, [Fetch ?u JNull, ConsoleError ''failed'' (Text ''reply'')])"
    using postSpike_result [of "envWith None 500" ?u JNull "''failed''" "''caught''" "''sent''" "[]"
             "''u1''" "''AWS''" "''prod''" "sampleFinding ''HIGH'' Null"] f500
    by simp
  have b: "postSpike (envWith None 204) ?u JNull ''failed'' ''caught'' ''sent'' []
     = (True, [Fetch ?u JNull, ConsoleLog ''sent''])"
    using postSpike_result [of "envWith None 204" ?u JNull "''failed''" "''caught''" "''sent''" "[]"
             "''u1''" "''AWS''" "''prod''" "sampleFinding ''HIGH'' Null"] f204
    by simp
  have c: "postSpike (envDown None) ?u JNull ''failed'' ''caught'' ''sent'' []
     = (False, [Fetch ?u JNull, ConsoleError ''caught'' (Caught (Exn ''ECONNRESET''))])"
    using postSpike_result [of "envDown None" ?u JNull "''failed''" "''caught''" "''sent''" "[]"
             "''u1''" "''AWS''" "''prod''" "sampleFinding ''HIGH'' Null"] fdown
    by simp
  from a b c show ?thesis by (intro conjI)
qed


subsection \<open>The batch loop\<close>

lemma sendSpikeAlert_extends:
  "\<exists>evs. snd (sendSpikeAlert env uid cp acct f tr) = tr @ evs \<and> lookups evs = [uid]"
proof -
  from sendSpikeAlert_shape [of env uid cp acct f tr]
  consider (post) url body m1 m2 m3 where
      "sendSpikeAlert env uid cp acct f tr
         = postSpike env url body m1 m2 m3 (tr @ [FindSettings uid])"
    | (skip) evs where
      "sendSpikeAlert env uid cp acct f tr = (False, tr @ FindSettings uid # evs)"
      "lookups evs = []"
    by blast
  then show ?thesis
  proof cases
    case post
    from postSpike_extends [of env url body m1 m2 m3 "tr @ [FindSettings uid]"]
    obtain evs where
      "snd (postSpike env url body m1 m2 m3 (tr @ [FindSettings uid]))
         = (tr @ [FindSettings uid]) @ Fetch url body # evs"
      "lookups evs = []"
      by blast
    with post have
      "snd (sendSpikeAlert env uid cp acct f tr) = tr @ (FindSettings uid # Fetch url body # evs)
       \<and> lookups (FindSettings uid # Fetch url body # evs) = [uid]"
      by simp
    then show ?thesis by blast
  next
    case skip
    then have
      "snd (sendSpikeAlert env uid cp acct f tr) = tr @ (FindSettings uid # evs)
       \<and> lookups (FindSettings uid # evs) = [uid]"
      by simp
    then show ?thesis by blast
  qed
qed

lemma alertLoop_counts:
  "fst (fst (alertLoop env uid cp acct fs sent skipped tr))
     + snd (fst (alertLoop env uid cp acct fs sent skipped tr))
   = sent + skipped + length fs"
  by (induction fs arbitrary: sent skipped tr) (simp_all split: prod.splits)

lemma alertLoop_extends:
  "\<exists>evs. snd (alertLoop env uid cp acct fs sent skipped tr) = tr @ evs
         \<and> lookups evs = replicate (length fs) uid"
proof (induction fs arbitrary: sent skipped tr)
  case Nil
  show ?case by simp
next
  case (Cons f fs)
  obtain ok1 tr1 where r: "sendSpikeAlert env uid cp acct f tr = (ok1, tr1)"
    by (cases "sendSpikeAlert env uid cp acct f tr")
  with sendSpikeAlert_extends [of env uid cp acct f tr]
  obtain evs1 where e1: "tr1 = tr @ evs1" "lookups evs1 = [uid]"
    by auto
  let ?sent = "if ok1 then sent + 1 else sent"
  let ?skipped = "if ok1 then skipped else skipped + 1"
  from Cons.IH [of ?sent ?skipped "tr1 @ [Delay 100]"]
  obtain evs2 where
    e2: "snd (alertLoop env uid cp acct fs ?sent ?skipped (tr1 @ [Delay 100]))
           = (tr1 @ [Delay 100]) @ evs2"
        "lookups evs2 = replicate (length fs) uid"
    by blast
  from r have
    "snd (alertLoop env uid cp acct (f # fs) sent skipped tr)
       = snd (alertLoop env uid cp acct fs ?sent ?skipped (tr1 @ [Delay 100]))"
    by simp
  with e1 e2 have
    "snd (alertLoop env uid cp acct (f # fs) sent skipped tr) = tr @ (evs1 @ Delay 100 # evs2)
     \<and> lookups (evs1 @ Delay 100 # evs2) = replicate (length (f # fs)) uid"
    by (simp add: lookups_append)
  then show ?case by blast
qed

lemma spikePayload_title:
  "field ''title'' (stringify (spikePayload cp acct sev f ts))
     = Some (JString (''['' @ cp @ ''] '' @ sev @ '': '' @ title f))"
  by (simp add: field_def spikePayload_def)

lemma alertLoop_titles:
  assumes settings: "\<forall>h. userSettings_findUnique env h uid = Returns st"
    and target: "spikeTarget st = Some (s, url)"
    and flags: "spikeAlertOnCritical s" "spikeAlertOnHigh s"
  shows "(\<forall>f \<in> set fs. toUpperCase (severity f) = ''CRITICAL'' \<or> toUpperCase (severity f) = ''HIGH'')
    \<Longrightarrow> map (\<lambda>(u, b). (u, field ''title'' b))
          (fetched (snd (alertLoop env uid cp acct fs sent skipped tr)))
        = map (\<lambda>(u, b). (u, field ''title'' b)) (fetched tr)
          @ map (\<lambda>f. (url, Some (JString (''['' @ cp @ ''] '' @ toUpperCase (severity f) @ '': ''
                                            @ title f)))) fs"
proof (induction fs arbitrary: sent skipped tr)
  case Nil
  show ?case by simp
next
  case (Cons f fs)
  let ?tr1 = "tr @ [FindSettings uid]"
  let ?body = "stringify (spikePayload cp acct (toUpperCase (severity f)) f (toISOString (now env ?tr1)))"
  from Cons.prems have pass:
    "(toUpperCase (severity f) = ''CRITICAL'' \<and> spikeAlertOnCritical s)
       \<or> (toUpperCase (severity f) = ''HIGH'' \<and> spikeAlertOnHigh s)"
    using flags by auto
  from settings have here: "userSettings_findUnique env tr uid = Returns st" by simp
  obtain ok1 tr1 where r: "sendSpikeAlert env uid cp acct f tr = (ok1, tr1)"
    by (cases "sendSpikeAlert env uid cp acct f tr")
  from sendSpikeAlert_posts [OF here target pass, of cp acct]
  obtain m1 m2 m3 where
    p: "sendSpikeAlert env uid cp acct f tr = postSpike env url ?body m1 m2 m3 ?tr1"
    by blast
  from postSpike_extends [of env url ?body m1 m2 m3 ?tr1]
  obtain evs where
    "snd (postSpike env url ?body m1 m2 m3 ?tr1) = ?tr1 @ Fetch url ?body # evs"
    "fetched evs = []"
    by blast
  moreover from p r have "postSpike env url ?body m1 m2 m3 ?tr1 = (ok1, tr1)"
    by simp
  ultimately have tr1: "tr1 = ?tr1 @ Fetch url ?body # evs" "fetched evs = []"
    by simp_all
  let ?sent = "if ok1 then sent + 1 else sent"
  let ?skipped = "if ok1 then skipped else skipped + 1"
  from r have step:
    "snd (alertLoop env uid cp acct (f # fs) sent skipped tr)
       = snd (alertLoop env uid cp acct fs ?sent ?skipped (tr1 @ [Delay 100]))"
    by simp
  from Cons.prems have rest:
    "\<forall>f \<in> set fs. toUpperCase (severity f) = ''CRITICAL'' \<or> toUpperCase (severity f) = ''HIGH''"
    by simp
  from tr1 have f1: "fetched (tr1 @ [Delay 100]) = fetched tr @ [(url, ?body)]"
    by (simp add: fetched_append)
  show ?case
    unfolding step Cons.IH [OF rest, of ?sent ?skipped "tr1 @ [Delay 100]"] f1
    by (simp add: spikePayload_title)
qed


text \<open>
  C4. \<^verbatim>\<open>sendBulkSpikeAlerts\<close> calls the single-alert path once for each finding
  whose upper-cased severity is CRITICAL or HIGH, in the order of the input, and for no
  other finding: the settings lookups it adds to the trace are one per such finding,
  the two counters add up to their number, whatever the settings and whatever each
  request is answered, and the findings of other severities can be removed from the
  input without changing the counts or the trace. A failed attempt does not end the
  loop: when the settings enable both severities, every such finding gets its own
  request, in order, whether or not earlier requests failed.
\<close>

theorem sendBulkSpikeAlerts_counts:
  "fst (fst (sendBulkSpikeAlerts env uid cp acct findings tr))
     + snd (fst (sendBulkSpikeAlerts env uid cp acct findings tr))
     = length (filter (\<lambda>f. toUpperCase (severity f) = ''CRITICAL''
                            \<or> toUpperCase (severity f) = ''HIGH'') findings)
   \<and> newLookups tr (snd (sendBulkSpikeAlerts env uid cp acct findings tr))
     = replicate (length (filter (\<lambda>f. toUpperCase (severity f) = ''CRITICAL''
                                       \<or> toUpperCase (severity f) = ''HIGH'') findings)) uid
   \<and> sendBulkSpikeAlerts env uid cp acct findings tr
     = sendBulkSpikeAlerts env uid cp acct
         (filter (\<lambda>f. toUpperCase (severity f) = ''CRITICAL''
                       \<or> toUpperCase (severity f) = ''HIGH'') findings) tr
   \<and> ((\<forall>h. userSettings_findUnique env h uid = Returns (Some s))
        \<and> spikeEnabled s \<and> spikeWebhookUrl s = Some url \<and> url \<noteq> []
        \<and> spikeAlertOnCritical s \<and> spikeAlertOnHigh s
      \<longrightarrow> map (\<lambda>(u, b). (u, field ''title'' b))
            (newFetched tr (snd (sendBulkSpikeAlerts env uid cp acct findings tr)))
          = map (\<lambda>f. (url, Some (JString (''['' @ cp @ ''] '' @ toUpperCase (severity f) @ '': ''
                                            @ title f))))
              (filter (\<lambda>f. toUpperCase (severity f) = ''CRITICAL''
                            \<or> toUpperCase (severity f) = ''HIGH'') findings))"
proof (intro conjI impI)
  let ?fs = "filter (\<lambda>f. toUpperCase (severity f) = ''CRITICAL''
                            \<or> toUpperCase (severity f) = ''HIGH'') findings"
  let ?R = "sendBulkSpikeAlerts env uid cp acct findings tr"
  have R: "?R = alertLoop env uid cp acct ?fs 0 0 tr"
    by (simp add: sendBulkSpikeAlerts_def alertableFindings_def)
  show "fst (fst ?R) + snd (fst ?R) = length ?fs"
    unfolding R by (simp add: alertLoop_counts)
  show "?R = sendBulkSpikeAlerts env uid cp acct ?fs tr"
    by (simp add: sendBulkSpikeAlerts_def alertableFindings_def)
  from alertLoop_extends [of env uid cp acct ?fs 0 0 tr]
  obtain evs where evs: "snd ?R = tr @ evs" "lookups evs = replicate (length ?fs) uid"
    unfolding R by blast
  then show "newLookups tr (snd ?R) = replicate (length ?fs) uid"
    by (simp add: newLookups_append)
  assume a: "(\<forall>h. userSettings_findUnique env h uid = Returns (Some s))
        \<and> spikeEnabled s \<and> spikeWebhookUrl s = Some url \<and> url \<noteq> []
        \<and> spikeAlertOnCritical s \<and> spikeAlertOnHigh s"
  then have target: "spikeTarget (Some s) = Some (s, url)"
    by (simp add: spikeTarget_def)
  have alertable:
    "\<forall>f \<in> set ?fs. toUpperCase (severity f) = ''CRITICAL'' \<or> toUpperCase (severity f) = ''HIGH''"
    by simp
  from a have
    "map (\<lambda>(u, b). (u, field ''title'' b)) (fetched (snd ?R))
       = map (\<lambda>(u, b). (u, field ''title'' b)) (fetched tr)
         @ map (\<lambda>f. (url, Some (JString (''['' @ cp @ ''] '' @ toUpperCase (severity f) @ '': ''
                                           @ title f)))) ?fs"
    unfolding R
    by (intro alertLoop_titles [OF _ target _ _ alertable]) simp_all
  with evs show
    "map (\<lambda>(u, b). (u, field ''title'' b)) (newFetched tr (snd ?R))
       = map (\<lambda>f. (url, Some (JString (''['' @ cp @ ''] '' @ toUpperCase (severity f) @ '': ''
                                         @ title f)))) ?fs"
    by (simp add: newFetched_append fetched_append)
qed

theorem sendBulkSpikeAlerts_counts_witness:
  "fst (fst (sendBulkSpikeAlerts (envWith (Some settingsOn) 500) ''u1'' ''AWS'' ''prod''
               [sampleFinding ''CRITICAL'' Null, sampleFinding ''medium'' Null,
                sampleFinding ''high'' Null] []))
     + snd (fst (sendBulkSpikeAlerts (envWith (Some settingsOn) 500) ''u1'' ''AWS'' ''prod''
               [sampleFinding ''CRITICAL'' Null, sampleFinding ''medium'' Null,
                sampleFinding ''high'' Null] []))
     = 2
   \<and> newLookups []
        (snd (sendBulkSpikeAlerts (envWith (Some settingsOn) 500) ''u1'' ''AWS'' ''prod''
               [sampleFinding ''CRITICAL'' Null, sampleFinding ''medium'' Null,
                sampleFinding ''high'' Null] []))
     = [''u1'', ''u1'']
   \<and> map (\<lambda>(u, b). (u, field ''title'' b))
        (newFetched []
          (snd (sendBulkSpikeAlerts (envWith (Some settingsOn) 500) ''u1'' ''AWS'' ''prod''
                 [sampleFinding ''CRITICAL'' Null, sampleFinding ''medium'' Null,
                  sampleFinding ''high'' Null] [])))
     = [(''https://hooks.example/spike'', Some (JString ''[AWS] CRITICAL: Open bucket'')),
        (''https://hooks.example/spike'', Some (JString ''[AWS] HIGH: Open bucket''))]
   \<and> fst (sendBulkSpikeAlerts (envWith (Some settingsOn) 500) ''u1'' ''AWS'' ''prod''
               [sampleFinding ''CRITICAL'' Null, sampleFinding ''medium'' Null,
                sampleFinding ''high'' Null] [])
     = (0, 2)"
proof -
  let ?env = "envWith (Some settingsOn) 500"
  let ?fs = "[sampleFinding ''CRITICAL'' Null, sampleFinding ''medium'' Null,
              sampleFinding ''high'' Null]"
  let ?url = "''https://hooks.example/spike''"
  let ?R = "sendBulkSpikeAlerts ?env ''u1'' ''AWS'' ''prod'' ?fs []"
  note T = sendBulkSpikeAlerts_counts [of ?env "''u1''" "''AWS''" "''prod''" ?fs "[]" settingsOn ?url]
  have hyp: "(\<forall>h. userSettings_findUnique ?env h ''u1'' = Returns (Some settingsOn))
        \<and> spikeEnabled settingsOn \<and> spikeWebhookUrl settingsOn = Some ?url \<and> ?url \<noteq> []
        \<and> spikeAlertOnCritical settingsOn \<and> spikeAlertOnHigh settingsOn"
    by (simp add: envWith_def settingsOn_def)
  have len: "length (filter (\<lambda>f. toUpperCase (severity f) = ''CRITICAL''
                            \<or> toUpperCase (severity f) = ''HIGH'') ?fs) = 2"
    by code_simp
  have titles:
    "map (\<lambda>f. (?url, Some (JString (''['' @ ''AWS'' @ ''] '' @ toUpperCase (severity f) @ '': ''
                                            @ title f))))
       (filter (\<lambda>f. toUpperCase (severity f) = ''CRITICAL''
                            \<or> toUpperCase (severity f) = ''HIGH'') ?fs)
     = [(?url, Some (JString ''[AWS] CRITICAL: Open bucket'')),
        (?url, Some (JString ''[AWS] HIGH: Open bucket''))]"
    by code_simp
  from T have c1: "fst (fst ?R) + snd (fst ?R) = 2"
    unfolding len by (elim conjE)
  from T have c2: "newLookups [] (snd ?R) = replicate 2 ''u1''"
    unfolding len by (elim conjE)
  from T [THEN conjunct2, THEN conjunct2, THEN conjunct2, THEN mp, OF hyp]
  have c3:
    "map (\<lambda>(u, b). (u, field ''title'' b)) (newFetched [] (snd ?R))
     = [(?url, Some (JString ''[AWS] CRITICAL: Open bucket'')),
        (?url, Some (JString ''[AWS] HIGH: Open bucket''))]"
    by (simp only: titles)
  have c4: "fst ?R = (0, 2)"
    by code_simp
  have two: "replicate 2 ''u1'' = [''u1'', ''u1'']"
    by (simp add: numeral_2_eq_2)
  from c1 c2 c3 c4 show ?thesis
    unfolding two by (intro conjI)
qed


subsection \<open>Which requests a run makes\<close>

lemma postSpike_fetched:
  "fetched (snd (postSpike env url body m1 m2 m3 tr)) = fetched tr @ [(url, body)]"
  by (simp add: postSpike_def Let_def fetched_append split: Outcome.splits)

lemma sendSpikeAlert_newFetched:
  "newFetched tr (snd (sendSpikeAlert env uid cp acct f tr))
     = (case userSettings_findUnique env tr uid of
          Throws e \<Rightarrow> []
        | Returns st \<Rightarrow>
            (case spikeTarget st of
               None \<Rightarrow> []
             | Some (s, url) \<Rightarrow>
                 if (toUpperCase (severity f) = ''CRITICAL'' \<and> spikeAlertOnCritical s)
                      \<or> (toUpperCase (severity f) = ''HIGH'' \<and> spikeAlertOnHigh s)
                 then [(url, stringify (spikePayload cp acct (toUpperCase (severity f)) f
            (toISOString (now env (tr @ [FindSettings uid])))))]
                 else []))"
proof (cases "userSettings_findUnique env tr uid")
  case (Throws e)
  then show ?thesis
    by (simp add: sendSpikeAlert_throws newFetched_def fetched_append)
next
  case (Returns st)
  show ?thesis
  proof (cases "spikeTarget st")
    case None
    with Returns show ?thesis
      by (simp add: sendSpikeAlert_unconfigured newFetched_def fetched_append)
  next
    case (Some p)
    then obtain s url where tgt: "spikeTarget st = Some (s, url)"
      by (cases p) simp
    show ?thesis
    proof (cases "(toUpperCase (severity f) = ''CRITICAL'' \<and> spikeAlertOnCritical s)
                    \<or> (toUpperCase (severity f) = ''HIGH'' \<and> spikeAlertOnHigh s)")
      case True
      from sendSpikeAlert_posts [OF Returns tgt True, of cp acct]
      have "fetched (snd (sendSpikeAlert env uid cp acct f tr))
              = fetched tr @ [(url, stringify (spikePayload cp acct (toUpperCase (severity f)) f
            (toISOString (now env (tr @ [FindSettings uid])))))]"
        by (simp only: postSpike_fetched) (simp add: fetched_append)
      with Returns tgt True show ?thesis
        by (simp add: newFetched_def)
    next
      case False
      from sendSpikeAlert_skips [OF Returns tgt False, of cp acct]
      have "fetched (snd (sendSpikeAlert env uid cp acct f tr)) = fetched tr"
        by (simp add: fetched_append)
      with Returns tgt False show ?thesis
        by (simp add: newFetched_def)
    qed
  qed
qed

lemma spikeAlert_send_newFetched:
  "newFetched tr (snd (spikeAlert_send env s url payload tr))
     = (if (toUpperCase (severity payload) = ''CRITICAL'' \<and> \<not> spikeAlertOnCritical s)
             \<or> (toUpperCase (severity payload) = ''HIGH'' \<and> \<not> spikeAlertOnHigh s)
             \<or> toUpperCase (severity payload) = ''MEDIUM''
             \<or> toUpperCase (severity payload) = ''LOW''
        then []
        else [(url, stringify (routeSpikePayload payload (toUpperCase (severity payload))
                     (toISOString (now env tr))))])"
  by (simp add: spikeAlert_send_def Let_def newFetched_def fetched_append split: Outcome.splits)

lemma spikeAlert_send_extends:
  "\<exists>evs. snd (spikeAlert_send env s url payload tr) = tr @ evs"
  by (simp add: spikeAlert_send_def Let_def split: Outcome.splits)

lemma spikeAlert_POST_newFetched:
  "user_findUnique env tr em = Returns (Some user) \<Longrightarrow> em \<noteq> [] \<Longrightarrow>
   newFetched tr (snd (spikeAlert_POST env (Some em) (Returns payload) tr))
     = (case spikeTarget (settings user) of
          None \<Rightarrow> []
        | Some (s, url) \<Rightarrow>
            if (toUpperCase (severity payload) = ''CRITICAL'' \<and> \<not> spikeAlertOnCritical s)
                 \<or> (toUpperCase (severity payload) = ''HIGH'' \<and> \<not> spikeAlertOnHigh s)
                 \<or> toUpperCase (severity payload) = ''MEDIUM''
                 \<or> toUpperCase (severity payload) = ''LOW''
            then []
            else [(url, stringify (routeSpikePayload payload (toUpperCase (severity payload))
                     (toISOString (now env (tr @ [FindUser em])))))])"
proof (cases "spikeTarget (settings user)")
  case None
  assume "user_findUnique env tr em = Returns (Some user)" "em \<noteq> []"
  with None show ?thesis
    by (simp add: spikeAlert_POST_def Let_def newFetched_def fetched_append)
next
  case (Some p)
  assume u: "user_findUnique env tr em = Returns (Some user)" "em \<noteq> []"
  obtain s url where p: "p = (s, url)" by (cases p)
  let ?tr1 = "tr @ [FindUser em]"
  from u Some p have eq:
    "spikeAlert_POST env (Some em) (Returns payload) tr = spikeAlert_send env s url payload ?tr1"
    by (simp add: spikeAlert_POST_def Let_def)
  from spikeAlert_send_extends [of env s url payload ?tr1]
  obtain evs where evs: "snd (spikeAlert_send env s url payload ?tr1) = ?tr1 @ evs"
    by blast
  have "newFetched tr (snd (spikeAlert_send env s url payload ?tr1))
          = newFetched ?tr1 (snd (spikeAlert_send env s url payload ?tr1))"
    unfolding evs by (simp add: newFetched_def fetched_append)
  with Some p show ?thesis
    unfolding eq by (simp add: spikeAlert_send_newFetched)
qed

lemma sendSpikeAlert_dispatch_iff:
  "userSettings_findUnique env tr uid = Returns st \<Longrightarrow>
   (newFetched tr (snd (sendSpikeAlert env uid cp acct f tr)) \<noteq> [])
     = (\<exists>s. st = Some s \<and> spikeEnabled s \<and> truthy (spikeWebhookUrl s)
            \<and> ((toUpperCase (severity f) = ''CRITICAL'' \<and> spikeAlertOnCritical s)
                 \<or> (toUpperCase (severity f) = ''HIGH'' \<and> spikeAlertOnHigh s)))"
  by (auto simp: sendSpikeAlert_newFetched spikeTarget_def truthy_def
           split: option.splits if_splits)

lemma spikeAlert_POST_dispatch_iff:
  "user_findUnique env tr em = Returns (Some user) \<Longrightarrow> em \<noteq> [] \<Longrightarrow>
   (newFetched tr (snd (spikeAlert_POST env (Some em) (Returns payload) tr)) \<noteq> [])
     = shouldAlert (settings user) (severity payload)"
  by (auto simp: spikeAlert_POST_newFetched spikeTarget_def truthy_def shouldAlert_def
           split: option.splits if_splits)


lemma sendSpikeAlert_true_dispatched:
  "fst (sendSpikeAlert env uid cp acct f tr) \<Longrightarrow>
   newFetched tr (snd (sendSpikeAlert env uid cp acct f tr)) \<noteq> []"
proof -
  assume t: "fst (sendSpikeAlert env uid cp acct f tr)"
  with sendSpikeAlert_shape [of env uid cp acct f tr]
  obtain url body m1 m2 m3 where
    "sendSpikeAlert env uid cp acct f tr
       = postSpike env url body m1 m2 m3 (tr @ [FindSettings uid])"
    by auto
  then have "fetched (snd (sendSpikeAlert env uid cp acct f tr)) = fetched tr @ [(url, body)]"
    by (simp add: postSpike_fetched fetched_append)
  then show ?thesis
    by (simp add: newFetched_def)
qed

text \<open>
  C1 (amended). A run dispatches when it adds a webhook request to the trace. Given the
  settings the lookup returns, \<^verbatim>\<open>sendSpikeAlert\<close> dispatches exactly when the settings
  exist, the integration is enabled, the webhook URL is neither null nor empty, and the
  upper-cased severity is CRITICAL with \<open>spikeAlertOnCritical\<close> on or HIGH with
  \<open>spikeAlertOnHigh\<close> on; for every other severity, MEDIUM and LOW among them, it makes
  no request, and whenever it makes none it returns false. The single-alert route
  dispatches exactly when \<open>shouldAlert\<close> holds: it skips a disabled CRITICAL, a disabled
  HIGH, MEDIUM and LOW, and dispatches in every other case.
\<close>

theorem alert_decision:
  "(userSettings_findUnique env tr uid = Returns st \<longrightarrow>
      (newFetched tr (snd (sendSpikeAlert env uid cp acct f tr)) \<noteq> [])
        = (\<exists>s. st = Some s \<and> spikeEnabled s \<and> truthy (spikeWebhookUrl s)
               \<and> ((toUpperCase (severity f) = ''CRITICAL'' \<and> spikeAlertOnCritical s)
                    \<or> (toUpperCase (severity f) = ''HIGH'' \<and> spikeAlertOnHigh s))))
   \<and> (newFetched tr (snd (sendSpikeAlert env uid cp acct f tr)) = []
        \<longrightarrow> \<not> fst (sendSpikeAlert env uid cp acct f tr))
   \<and> (user_findUnique env tr em = Returns (Some user) \<and> em \<noteq> [] \<longrightarrow>
      (newFetched tr (snd (spikeAlert_POST env (Some em) (Returns payload) tr)) \<noteq> [])
        = shouldAlert (settings user) (severity payload))"
  using sendSpikeAlert_dispatch_iff [of env tr uid st cp acct f]
    sendSpikeAlert_true_dispatched [of env uid cp acct f tr]
    spikeAlert_POST_dispatch_iff [of env tr em user payload]
  by blast

theorem alert_decision_witness:
  "newFetched [] (snd (sendSpikeAlert (envWith (Some settingsOn) 200) ''u1'' ''AWS'' ''prod''
                         (sampleFinding ''critical'' Null) [])) \<noteq> []
   \<and> newFetched [] (snd (sendSpikeAlert (envWith (Some settingsOn) 200) ''u1'' ''AWS'' ''prod''
                         (sampleFinding ''low'' Null) [])) = []
   \<and> \<not> fst (sendSpikeAlert (envWith (Some settingsOn) 200) ''u1'' ''AWS'' ''prod''
                         (sampleFinding ''low'' Null) [])
   \<and> shouldAlert (Some settingsOn) ''high''
   \<and> newFetched [] (snd (spikeAlert_POST (envWith (Some settingsOn) 200) (Some ''ann@example.org'')
                         (Returns (samplePayload ''high'' Undefined)) [])) \<noteq> []"
proof -
  let ?env = "envWith (Some settingsOn) 200"
  let ?user = "\<lparr>user_id = ''u1'', user_email = ''ann@example.org'', settings = Some settingsOn\<rparr>"
  have look: "userSettings_findUnique ?env [] ''u1'' = Returns (Some settingsOn)"
    by (simp add: envWith_def)
  have user: "user_findUnique ?env [] ''ann@example.org'' = Returns (Some ?user)
                \<and> ''ann@example.org'' \<noteq> []"
    by (simp add: envWith_def)
  have on: "spikeEnabled settingsOn \<and> truthy (spikeWebhookUrl settingsOn)
              \<and> spikeAlertOnCritical settingsOn \<and> spikeAlertOnHigh settingsOn"
    by (simp add: settingsOn_def truthy_def)
  have up: "toUpperCase (severity (sampleFinding ''critical'' Null)) = ''CRITICAL''"
    by code_simp
  have low: "toUpperCase (severity (sampleFinding ''low'' Null)) \<noteq> ''CRITICAL''
               \<and> toUpperCase (severity (sampleFinding ''low'' Null)) \<noteq> ''HIGH''"
    by code_simp
  have sh: "shouldAlert (settings ?user) (severity (samplePayload ''high'' Undefined))"
    by code_simp
  note A = alert_decision [of ?env "[]" "''u1''" "Some settingsOn" "''AWS''" "''prod''"
             "sampleFinding ''critical'' Null" "''ann@example.org''" ?user
             "samplePayload ''high'' Undefined"]
  note B = alert_decision [of ?env "[]" "''u1''" "Some settingsOn" "''AWS''" "''prod''"
             "sampleFinding ''low'' Null" "''ann@example.org''" ?user
             "samplePayload ''high'' Undefined"]
  from A [THEN conjunct1, THEN mp, OF look] on up
  have c1: "newFetched [] (snd (sendSpikeAlert ?env ''u1'' ''AWS'' ''prod''
                         (sampleFinding ''critical'' Null) [])) \<noteq> []"
    by blast
  from B [THEN conjunct1, THEN mp, OF look] low
  have c2: "newFetched [] (snd (sendSpikeAlert ?env ''u1'' ''AWS'' ''prod''
                         (sampleFinding ''low'' Null) [])) = []"
    by blast
  from B [THEN conjunct2, THEN conjunct1, THEN mp, OF c2]
  have c3: "\<not> fst (sendSpikeAlert ?env ''u1'' ''AWS'' ''prod'' (sampleFinding ''low'' Null) [])" .
  from A [THEN conjunct2, THEN conjunct2, THEN mp, OF user] sh
  have c5: "newFetched [] (snd (spikeAlert_POST ?env (Some ''ann@example.org'')
                         (Returns (samplePayload ''high'' Undefined)) [])) \<noteq> []"
    by blast
  have c4: "shouldAlert (Some settingsOn) ''high''"
    by code_simp
  from c1 c2 c3 c4 c5 show ?thesis by (intro conjI)
qed

theorem alert_decision_counterexample:
  "shouldAlert (Some settingsOn) ''INFO''
   \<and> userSettings_findUnique (envWith (Some settingsOn) 200) [] ''u1'' = Returns (Some settingsOn)
   \<and> sendSpikeAlert (envWith (Some settingsOn) 200) ''u1'' ''AWS'' ''prod''
        (sampleFinding ''INFO'' Null) []
      = (False, [FindSettings ''u1''])"
proof (intro conjI)
  show "shouldAlert (Some settingsOn) ''INFO''"
    by code_simp
  show "userSettings_findUnique (envWith (Some settingsOn) 200) [] ''u1''
          = Returns (Some settingsOn)"
    by (simp add: envWith_def)
  show "sendSpikeAlert (envWith (Some settingsOn) 200) ''u1'' ''AWS'' ''prod''
          (sampleFinding ''INFO'' Null) []
        = (False, [FindSettings ''u1''])"
    by code_simp
qed

text \<open>
  C9 (amended). With the same settings and the same severity, the route dispatches
  exactly when the library's \<^verbatim>\<open>sendSpikeAlert\<close> dispatches, or when the integration is
  configured and the upper-cased severity is none of CRITICAL, HIGH, MEDIUM, LOW. So
  whenever the library dispatches the route does, and for the four severity labels
  (in any letter case) the two gates decide alike.
\<close>

theorem route_library_gate:
  "userSettings_findUnique env tr uid = Returns st
   \<and> user_findUnique env tr2 em = Returns (Some user) \<and> em \<noteq> []
   \<and> settings user = st \<and> severity payload = severity f
   \<longrightarrow>
     ((newFetched tr2 (snd (spikeAlert_POST env (Some em) (Returns payload) tr2)) \<noteq> [])
        = (newFetched tr (snd (sendSpikeAlert env uid cp acct f tr)) \<noteq> []
           \<or> (spikeTarget st \<noteq> None
               \<and> toUpperCase (severity f) \<notin> {''CRITICAL'', ''HIGH'', ''MEDIUM'', ''LOW''})))
     \<and> (toUpperCase (severity f) \<in> {''CRITICAL'', ''HIGH'', ''MEDIUM'', ''LOW''}
          \<longrightarrow> (newFetched tr2 (snd (spikeAlert_POST env (Some em) (Returns payload) tr2)) \<noteq> [])
                = (newFetched tr (snd (sendSpikeAlert env uid cp acct f tr)) \<noteq> []))"
proof (intro impI)
  assume a: "userSettings_findUnique env tr uid = Returns st
   \<and> user_findUnique env tr2 em = Returns (Some user) \<and> em \<noteq> []
   \<and> settings user = st \<and> severity payload = severity f"
  then have look: "userSettings_findUnique env tr uid = Returns st"
    and user: "user_findUnique env tr2 em = Returns (Some user)" "em \<noteq> []"
    and same: "settings user = st" "severity payload = severity f"
    by simp_all
  note lib = sendSpikeAlert_dispatch_iff [OF look, of cp acct f]
  note route = spikeAlert_POST_dispatch_iff [OF user, of payload]
  have full:
    "(newFetched tr2 (snd (spikeAlert_POST env (Some em) (Returns payload) tr2)) \<noteq> [])
        = (newFetched tr (snd (sendSpikeAlert env uid cp acct f tr)) \<noteq> []
           \<or> (spikeTarget st \<noteq> None
               \<and> toUpperCase (severity f) \<notin> {''CRITICAL'', ''HIGH'', ''MEDIUM'', ''LOW''}))"
    unfolding lib route same
    by (auto simp: shouldAlert_def spikeTarget_def truthy_def split: option.splits)
  then show
    "((newFetched tr2 (snd (spikeAlert_POST env (Some em) (Returns payload) tr2)) \<noteq> [])
        = (newFetched tr (snd (sendSpikeAlert env uid cp acct f tr)) \<noteq> []
           \<or> (spikeTarget st \<noteq> None
               \<and> toUpperCase (severity f) \<notin> {''CRITICAL'', ''HIGH'', ''MEDIUM'', ''LOW''})))
     \<and> (toUpperCase (severity f) \<in> {''CRITICAL'', ''HIGH'', ''MEDIUM'', ''LOW''}
          \<longrightarrow> (newFetched tr2 (snd (spikeAlert_POST env (Some em) (Returns payload) tr2)) \<noteq> [])
                = (newFetched tr (snd (sendSpikeAlert env uid cp acct f tr)) \<noteq> []))"
    by blast
qed

theorem route_library_gate_witness:
  "(newFetched [] (snd (spikeAlert_POST (envWith (Some settingsOn) 200) (Some ''ann@example.org'')
                          (Returns (samplePayload ''High'' Undefined)) [])) \<noteq> [])
     = (newFetched [] (snd (sendSpikeAlert (envWith (Some settingsOn) 200) ''u1'' ''AWS'' ''prod''
                             (sampleFinding ''High'' Null) [])) \<noteq> [])"
proof -
  let ?env = "envWith (Some settingsOn) 200"
  let ?user = "\<lparr>user_id = ''u1'', user_email = ''ann@example.org'', settings = Some settingsOn\<rparr>"
  have hyp: "userSettings_findUnique ?env [] ''u1'' = Returns (Some settingsOn)
     \<and> user_findUnique ?env [] ''ann@example.org'' = Returns (Some ?user)
     \<and> ''ann@example.org'' \<noteq> []
     \<and> settings ?user = Some settingsOn
     \<and> severity (samplePayload ''High'' Undefined) = severity (sampleFinding ''High'' Null)"
    by (simp add: envWith_def samplePayload_def sampleFinding_def)
  have label: "toUpperCase (severity (sampleFinding ''High'' Null))
                 \<in> {''CRITICAL'', ''HIGH'', ''MEDIUM'', ''LOW''}"
    by code_simp
  from route_library_gate [of ?env "[]" "''u1''" "Some settingsOn" "[]" "''ann@example.org''"
         ?user "samplePayload ''High'' Undefined" "sampleFinding ''High'' Null" "''AWS''" "''prod''",
         THEN mp, OF hyp, THEN conjunct2, THEN mp, OF label]
  show ?thesis .
qed

theorem route_library_gate_counterexample:
  "fst (spikeAlert_POST (envWith (Some settingsOn) 200) (Some ''ann@example.org'')
          (Returns (samplePayload ''INFO'' Undefined)) [])
     = (200, JObject [(''success'', JBool True),
                      (''message'', JString ''Alert sent to Spike.sh successfully'')])
   \<and> length (newFetched [] (snd (spikeAlert_POST (envWith (Some settingsOn) 200)
                                     (Some ''ann@example.org'')
                                     (Returns (samplePayload ''INFO'' Undefined)) []))) = 1
   \<and> sendSpikeAlert (envWith (Some settingsOn) 200) ''u1'' ''AWS'' ''prod''
        (sampleFinding ''INFO'' Null) []
      = (False, [FindSettings ''u1''])
   \<and> newFetched [] (snd (sendSpikeAlert (envWith (Some settingsOn) 200) ''u1'' ''AWS'' ''prod''
                            (sampleFinding ''INFO'' Null) [])) = []"
proof (intro conjI)
  show "fst (spikeAlert_POST (envWith (Some settingsOn) 200) (Some ''ann@example.org'')
          (Returns (samplePayload ''INFO'' Undefined)) [])
     = (200, JObject [(''success'', JBool True),
                      (''message'', JString ''Alert sent to Spike.sh successfully'')])"
    by code_simp
  show "length (newFetched [] (snd (spikeAlert_POST (envWith (Some settingsOn) 200)
                                     (Some ''ann@example.org'')
                                     (Returns (samplePayload ''INFO'' Undefined)) []))) = 1"
    by code_simp
  show "sendSpikeAlert (envWith (Some settingsOn) 200) ''u1'' ''AWS'' ''prod''
        (sampleFinding ''INFO'' Null) []
      = (False, [FindSettings ''u1''])"
    by code_simp
  show "newFetched [] (snd (sendSpikeAlert (envWith (Some settingsOn) 200) ''u1'' ''AWS'' ''prod''
                            (sampleFinding ''INFO'' Null) [])) = []"
    by code_simp
qed


subsection \<open>The severity of what is sent\<close>

lemma payloadSeverity_spikePayload:
  "payloadSeverity (stringify (spikePayload cp acct sev f ts)) = Some (severity f)"
  by (simp add: payloadSeverity_def field_def spikePayload_def)

lemma payloadSeverity_routeSpikePayload:
  "payloadSeverity (stringify (routeSpikePayload payload sev ts)) = Some (severity payload)"
  by (simp add: payloadSeverity_def field_def routeSpikePayload_def)

lemma sendSpikeAlert_requests:
  "(u, b) \<in> set (newFetched tr (snd (sendSpikeAlert env uid cp acct f tr))) \<Longrightarrow>
   payloadSeverity b = Some (severity f)
   \<and> (toUpperCase (severity f) = ''CRITICAL'' \<or> toUpperCase (severity f) = ''HIGH'')"
  by (auto simp: sendSpikeAlert_newFetched payloadSeverity_spikePayload
           split: Outcome.splits option.splits if_splits)

lemma alertLoop_requests:
  "(u, b) \<in> set (newFetched tr (snd (alertLoop env uid cp acct fs sent skipped tr))) \<Longrightarrow>
   \<exists>f \<in> set fs. payloadSeverity b = Some (severity f)
      \<and> (toUpperCase (severity f) = ''CRITICAL'' \<or> toUpperCase (severity f) = ''HIGH'')"
proof (induction fs arbitrary: sent skipped tr)
  case Nil
  then show ?case by (simp add: newFetched_def)
next
  case (Cons f fs)
  obtain ok1 tr1 where r: "sendSpikeAlert env uid cp acct f tr = (ok1, tr1)"
    by (cases "sendSpikeAlert env uid cp acct f tr")
  with sendSpikeAlert_extends [of env uid cp acct f tr]
  obtain evs1 where e1: "tr1 = tr @ evs1"
    by auto
  let ?sent = "if ok1 then sent + 1 else sent"
  let ?skipped = "if ok1 then skipped else skipped + 1"
  let ?tr2 = "tr1 @ [Delay 100]"
  let ?rest = "alertLoop env uid cp acct fs ?sent ?skipped ?tr2"
  from alertLoop_extends [of env uid cp acct fs ?sent ?skipped ?tr2]
  obtain evs2 where e2: "snd ?rest = ?tr2 @ evs2"
    by blast
  from r have step: "snd (alertLoop env uid cp acct (f # fs) sent skipped tr) = snd ?rest"
    by simp
  have split:
    "newFetched tr (snd ?rest) = newFetched tr tr1 @ newFetched ?tr2 (snd ?rest)"
  proof -
    from e2 e1 have "snd ?rest = tr @ (evs1 @ Delay 100 # evs2)"
      by simp
    then have a: "newFetched tr (snd ?rest) = fetched evs1 @ fetched evs2"
      by (simp only: newFetched_append) (simp add: fetched_append)
    from e2 have b: "newFetched ?tr2 (snd ?rest) = fetched evs2"
      by (simp only: newFetched_append)
    from e1 have c: "newFetched tr tr1 = fetched evs1"
      by (simp only: newFetched_append)
    from a b c show ?thesis by simp
  qed
  from Cons.prems have
    "(u, b) \<in> set (newFetched tr tr1) \<or> (u, b) \<in> set (newFetched ?tr2 (snd ?rest))"
    unfolding step split by simp
  then show ?case
  proof
    assume "(u, b) \<in> set (newFetched tr tr1)"
    with r have "(u, b) \<in> set (newFetched tr (snd (sendSpikeAlert env uid cp acct f tr)))"
      by simp
    from sendSpikeAlert_requests [OF this] show ?thesis by simp
  next
    assume "(u, b) \<in> set (newFetched ?tr2 (snd ?rest))"
    from Cons.IH [OF this] show ?thesis by auto
  qed
qed

lemma spikeAlert_send_requests:
  "(u, b) \<in> set (newFetched tr (snd (spikeAlert_send env s url payload tr))) \<Longrightarrow>
   b = stringify (routeSpikePayload payload (toUpperCase (severity payload))
                     (toISOString (now env tr)))
   \<and> toUpperCase (severity payload) \<noteq> ''MEDIUM'' \<and> toUpperCase (severity payload) \<noteq> ''LOW''"
  by (auto simp: spikeAlert_send_newFetched split: if_splits)

lemma spikeAlert_POST_requests:
  assumes "(u, b) \<in> set (newFetched tr (snd (spikeAlert_POST env session request tr)))"
  shows "\<exists>payload em. session = Some em \<and> request = Returns payload
           \<and> b = stringify (routeSpikePayload payload (toUpperCase (severity payload))
                     (toISOString (now env (tr @ [FindUser em]))))
           \<and> toUpperCase (severity payload) \<noteq> ''MEDIUM''
           \<and> toUpperCase (severity payload) \<noteq> ''LOW''"
proof (cases session)
  case None
  with assms show ?thesis
    by (simp add: spikeAlert_POST_def newFetched_def)
next
  case (Some em)
  note sess = this
  show ?thesis
  proof (cases "em = []")
    case True
    with assms sess show ?thesis
      by (simp add: spikeAlert_POST_def newFetched_def)
  next
    case False
    note em = this
    let ?tr1 = "tr @ [FindUser em]"
    show ?thesis
    proof (cases "user_findUnique env tr em")
      case (Throws e)
      with assms sess em show ?thesis
        by (simp add: spikeAlert_POST_def Let_def newFetched_def fetched_append)
    next
      case (Returns found)
      note found = this
      show ?thesis
      proof (cases found)
        case None
        with assms sess em found show ?thesis
          by (simp add: spikeAlert_POST_def Let_def newFetched_def fetched_append)
      next
        case (Some user)
        note user = this
        show ?thesis
        proof (cases "spikeTarget (settings user)")
          case None
          with assms sess em found user show ?thesis
            by (simp add: spikeAlert_POST_def Let_def newFetched_def fetched_append)
        next
          case (Some p)
          obtain s url where p: "p = (s, url)" by (cases p)
          show ?thesis
          proof (cases request)
            case (Throws e)
            with assms sess em found user Some p show ?thesis
              by (simp add: spikeAlert_POST_def Let_def newFetched_def fetched_append)
          next
            case (Returns payload)
            with sess em found user Some p have eq:
              "spikeAlert_POST env session request tr = spikeAlert_send env s url payload ?tr1"
              by (simp add: spikeAlert_POST_def Let_def)
            from spikeAlert_send_extends [of env s url payload ?tr1]
            obtain evs where evs: "snd (spikeAlert_send env s url payload ?tr1) = ?tr1 @ evs"
              by blast
            have "newFetched tr (snd (spikeAlert_send env s url payload ?tr1))
                    = newFetched ?tr1 (snd (spikeAlert_send env s url payload ?tr1))"
              unfolding evs by (simp add: newFetched_def fetched_append)
            with assms eq have
              "(u, b) \<in> set (newFetched ?tr1 (snd (spikeAlert_send env s url payload ?tr1)))"
              by simp
            from spikeAlert_send_requests [OF this] Returns sess show ?thesis
              by simp
          qed
        qed
      qed
    qed
  qed
qed

text \<open>
  C2 (amended). In the library, \<^verbatim>\<open>sendSpikeAlert\<close> and \<^verbatim>\<open>sendBulkSpikeAlerts\<close> send a
  payload only for a finding whose upper-cased severity is CRITICAL or HIGH. The
  single-alert route sends a payload only for a request whose upper-cased severity is
  neither MEDIUM nor LOW, so among the four severity labels only for CRITICAL or
  HIGH. In every path and under every settings configuration, a finding with severity
  MEDIUM or LOW never reaches the webhook.
\<close>

theorem alerted_severities:
  "(\<forall>(u, b) \<in> set (newFetched tr (snd (sendSpikeAlert env uid cp acct f tr))).
       payloadSeverity b = Some (severity f)
       \<and> (toUpperCase (severity f) = ''CRITICAL'' \<or> toUpperCase (severity f) = ''HIGH''))
   \<and> (\<forall>(u, b) \<in> set (newFetched tr (snd (sendBulkSpikeAlerts env uid cp acct findings tr))).
       \<exists>g \<in> set findings. payloadSeverity b = Some (severity g)
          \<and> (toUpperCase (severity g) = ''CRITICAL'' \<or> toUpperCase (severity g) = ''HIGH''))
   \<and> (\<forall>(u, b) \<in> set (newFetched tr (snd (spikeAlert_POST env session request tr))).
       \<exists>payload. request = Returns payload \<and> payloadSeverity b = Some (severity payload)
          \<and> toUpperCase (severity payload) \<noteq> ''MEDIUM''
          \<and> toUpperCase (severity payload) \<noteq> ''LOW''
          \<and> (toUpperCase (severity payload) \<in> {''CRITICAL'', ''HIGH'', ''MEDIUM'', ''LOW''}
               \<longrightarrow> toUpperCase (severity payload) = ''CRITICAL''
                    \<or> toUpperCase (severity payload) = ''HIGH''))"
proof (intro conjI ballI)
  fix x assume x: "x \<in> set (newFetched tr (snd (sendSpikeAlert env uid cp acct f tr)))"
  obtain u b where xb: "x = (u, b)" by (cases x)
  with x have "(u, b) \<in> set (newFetched tr (snd (sendSpikeAlert env uid cp acct f tr)))"
    by simp
  from sendSpikeAlert_requests [OF this] xb
  show "case x of (u, b) \<Rightarrow>
       payloadSeverity b = Some (severity f)
       \<and> (toUpperCase (severity f) = ''CRITICAL'' \<or> toUpperCase (severity f) = ''HIGH'')"
    by simp
next
  fix x assume x: "x \<in> set (newFetched tr (snd (sendBulkSpikeAlerts env uid cp acct findings tr)))"
  obtain u b where xb: "x = (u, b)" by (cases x)
  with x have
    "(u, b) \<in> set (newFetched tr (snd (alertLoop env uid cp acct (alertableFindings findings) 0 0 tr)))"
    by (simp add: sendBulkSpikeAlerts_def)
  from alertLoop_requests [OF this]
  obtain g where "g \<in> set (alertableFindings findings)"
    "payloadSeverity b = Some (severity g)"
    "toUpperCase (severity g) = ''CRITICAL'' \<or> toUpperCase (severity g) = ''HIGH''"
    by blast
  then have "\<exists>g \<in> set findings. payloadSeverity b = Some (severity g)
          \<and> (toUpperCase (severity g) = ''CRITICAL'' \<or> toUpperCase (severity g) = ''HIGH'')"
    by (auto simp: alertableFindings_def)
  with xb show "case x of (u, b) \<Rightarrow>
       \<exists>g \<in> set findings. payloadSeverity b = Some (severity g)
          \<and> (toUpperCase (severity g) = ''CRITICAL'' \<or> toUpperCase (severity g) = ''HIGH'')"
    by simp
next
  fix x assume x: "x \<in> set (newFetched tr (snd (spikeAlert_POST env session request tr)))"
  obtain u b where xb: "x = (u, b)" by (cases x)
  with x have "(u, b) \<in> set (newFetched tr (snd (spikeAlert_POST env session request tr)))"
    by simp
  from spikeAlert_POST_requests [OF this]
  obtain payload where
    "request = Returns payload" "payloadSeverity b = Some (severity payload)"
    "toUpperCase (severity payload) \<noteq> ''MEDIUM''" "toUpperCase (severity payload) \<noteq> ''LOW''"
    by (auto simp: payloadSeverity_routeSpikePayload)
  then have "\<exists>payload. request = Returns payload \<and> payloadSeverity b = Some (severity payload)
          \<and> toUpperCase (severity payload) \<noteq> ''MEDIUM''
          \<and> toUpperCase (severity payload) \<noteq> ''LOW''
          \<and> (toUpperCase (severity payload) \<in> {''CRITICAL'', ''HIGH'', ''MEDIUM'', ''LOW''}
               \<longrightarrow> toUpperCase (severity payload) = ''CRITICAL''
                    \<or> toUpperCase (severity payload) = ''HIGH'')"
    by blast
  with xb show "case x of (u, b) \<Rightarrow>
       \<exists>payload. request = Returns payload \<and> payloadSeverity b = Some (severity payload)
          \<and> toUpperCase (severity payload) \<noteq> ''MEDIUM''
          \<and> toUpperCase (severity payload) \<noteq> ''LOW''
          \<and> (toUpperCase (severity payload) \<in> {''CRITICAL'', ''HIGH'', ''MEDIUM'', ''LOW''}
               \<longrightarrow> toUpperCase (severity payload) = ''CRITICAL''
                    \<or> toUpperCase (severity payload) = ''HIGH'')"
    by simp
qed


theorem alerted_severities_witness:
  "(''https://hooks.example/spike'',
      stringify (spikePayload ''AWS'' ''prod'' ''CRITICAL'' (sampleFinding ''critical'' Null)
          ''2024-05-01T10:00:00.000Z''))
     \<in> set (newFetched [] (snd (sendSpikeAlert (envWith (Some settingsOn) 200) ''u1'' ''AWS''
                                   ''prod'' (sampleFinding ''critical'' Null) [])))
   \<and> payloadSeverity (stringify (spikePayload ''AWS'' ''prod'' ''CRITICAL'' (sampleFinding ''critical'' Null)
          ''2024-05-01T10:00:00.000Z'')) = Some ''critical''
   \<and> (''https://hooks.example/spike'',
      stringify (spikePayload ''AWS'' ''prod'' ''HIGH'' (sampleFinding ''high'' Null)
          ''2024-05-01T10:00:00.000Z''))
     \<in> set (newFetched [] (snd (sendBulkSpikeAlerts (envWith (Some settingsOn) 200) ''u1'' ''AWS''
                                   ''prod''
                                   [sampleFinding ''CRITICAL'' Null, sampleFinding ''medium'' Null,
                                    sampleFinding ''high'' Null] [])))
   \<and> (\<exists>g \<in> set [sampleFinding ''CRITICAL'' Null, sampleFinding ''medium'' Null,
                  sampleFinding ''high'' Null].
         payloadSeverity (stringify (spikePayload ''AWS'' ''prod'' ''HIGH'' (sampleFinding ''high'' Null)
          ''2024-05-01T10:00:00.000Z'')) = Some (severity g)
         \<and> (toUpperCase (severity g) = ''CRITICAL'' \<or> toUpperCase (severity g) = ''HIGH''))
   \<and> (''https://hooks.example/spike'',
      stringify (routeSpikePayload (samplePayload ''High'' Undefined) ''HIGH''
          ''2024-05-01T10:00:00.000Z''))
     \<in> set (newFetched [] (snd (spikeAlert_POST (envWith (Some settingsOn) 200)
                                   (Some ''ann@example.org'')
                                   (Returns (samplePayload ''High'' Undefined)) [])))
   \<and> payloadSeverity (stringify (routeSpikePayload (samplePayload ''High'' Undefined) ''HIGH''
          ''2024-05-01T10:00:00.000Z'')) = Some ''High''"
proof -
  let ?env = "envWith (Some settingsOn) 200"
  let ?url = "''https://hooks.example/spike''"
  let ?ts = "''2024-05-01T10:00:00.000Z''"
  let ?fs = "[sampleFinding ''CRITICAL'' Null, sampleFinding ''medium'' Null,
              sampleFinding ''high'' Null]"
  let ?b1 = "stringify (spikePayload ''AWS'' ''prod'' ''CRITICAL'' (sampleFinding ''critical'' Null)
          ?ts)"
  let ?b2 = "stringify (spikePayload ''AWS'' ''prod'' ''HIGH'' (sampleFinding ''high'' Null)
          ?ts)"
  let ?b3 = "stringify (routeSpikePayload (samplePayload ''High'' Undefined) ''HIGH''
          ?ts)"
  note T = alerted_severities [of "[]" ?env "''u1''" "''AWS''" "''prod''"
             "sampleFinding ''critical'' Null" ?fs "Some ''ann@example.org''"
             "Returns (samplePayload ''High'' Undefined)"]
  have m1: "(?url, ?b1) \<in> set (newFetched [] (snd (sendSpikeAlert ?env ''u1'' ''AWS'' ''prod''
                                                    (sampleFinding ''critical'' Null) [])))"
    by code_simp
  have m2: "(?url, ?b2) \<in> set (newFetched [] (snd (sendBulkSpikeAlerts ?env ''u1'' ''AWS''
                                                    ''prod'' ?fs [])))"
    by code_simp
  have m3: "(?url, ?b3) \<in> set (newFetched [] (snd (spikeAlert_POST ?env (Some ''ann@example.org'')
                                                    (Returns (samplePayload ''High'' Undefined)) [])))"
    by code_simp
  from T [THEN conjunct1, THEN bspec, OF m1]
  have c1: "payloadSeverity ?b1 = Some ''critical''"
    by (simp add: sampleFinding_def)
  from T [THEN conjunct2, THEN conjunct1, THEN bspec, OF m2]
  have c2: "\<exists>g \<in> set ?fs. payloadSeverity ?b2 = Some (severity g)
         \<and> (toUpperCase (severity g) = ''CRITICAL'' \<or> toUpperCase (severity g) = ''HIGH'')"
    by (simp only: prod.case)
  from T [THEN conjunct2, THEN conjunct2, THEN bspec, OF m3]
  have c3: "payloadSeverity ?b3 = Some ''High''"
    by (auto simp: samplePayload_def)
  from m1 c1 m2 c2 m3 c3 show ?thesis by (intro conjI)
qed

theorem alerted_severities_counterexample:
  "(''https://hooks.example/spike'',
      stringify (routeSpikePayload (samplePayload ''INFO'' Undefined) ''INFO''
          ''2024-05-01T10:00:00.000Z''))
     \<in> set (newFetched [] (snd (spikeAlert_POST (envWith (Some settingsOn) 200)
                                   (Some ''ann@example.org'')
                                   (Returns (samplePayload ''INFO'' Undefined)) [])))
   \<and> payloadSeverity (stringify (routeSpikePayload (samplePayload ''INFO'' Undefined) ''INFO''
          ''2024-05-01T10:00:00.000Z'')) = Some ''INFO''
   \<and> toUpperCase ''INFO'' \<noteq> ''CRITICAL'' \<and> toUpperCase ''INFO'' \<noteq> ''HIGH''"
proof (intro conjI)
  show "(''https://hooks.example/spike'',
      stringify (routeSpikePayload (samplePayload ''INFO'' Undefined) ''INFO''
          ''2024-05-01T10:00:00.000Z''))
     \<in> set (newFetched [] (snd (spikeAlert_POST (envWith (Some settingsOn) 200)
                                   (Some ''ann@example.org'')
                                   (Returns (samplePayload ''INFO'' Undefined)) [])))"
    by code_simp
  show "payloadSeverity (stringify (routeSpikePayload (samplePayload ''INFO'' Undefined) ''INFO''
          ''2024-05-01T10:00:00.000Z'')) = Some ''INFO''"
    by code_simp
  show "toUpperCase ''INFO'' \<noteq> ''CRITICAL''"
    by code_simp
  show "toUpperCase ''INFO'' \<noteq> ''HIGH''"
    by code_simp
qed


subsection \<open>The finding payload\<close>

lemma sendSpikeAlert_body:
  "(u, b) \<in> set (newFetched tr (snd (sendSpikeAlert env uid cp acct f tr))) \<Longrightarrow>
   b = stringify (spikePayload cp acct (toUpperCase (severity f)) f
                    (toISOString (now env (tr @ [FindSettings uid]))))"
  by (auto simp: sendSpikeAlert_newFetched split: Outcome.splits option.splits if_splits)

lemma spikePayload_fields:
  "field ''message'' (stringify (spikePayload cp acct sev f ts))
     = Some (JString (case description f of
                        Str d \<Rightarrow> if d = [] then title f else d
                      | _ \<Rightarrow> title f))"
  "field ''status'' (stringify (spikePayload cp acct sev f ts))
     = Some (JString (if sev = ''CRITICAL'' then ''CRITICAL'' else ''WARNING''))"
  "field ''priority'' (stringify (spikePayload cp acct sev f ts))
     = Some (JString (mapSeverityToPriority sev))"
  "field ''source'' (stringify (spikePayload cp acct sev f ts))
     = Some (JString ''CloudGuard Security Dashboard'')"
  "field ''timestamp'' (stringify (spikePayload cp acct sev f ts)) = Some (JString ts)"
  "field ''metadata'' (stringify (spikePayload cp acct sev f ts))
     = Some (stringify
              (JObject
                [(''severity'', JString (severity f)),
                 (''cloudProvider'', JString cp),
                 (''resource'', JString (resource f)),
                 (''resourceType'', jopt (resourceType f)),
                 (''region'', jopt (region f)),
                 (''accountName'', JString acct),
                 (''recommendation'', jopt (recommendation f))]))"
  by (simp_all add: field_def spikePayload_def orElse_def defined_def split: optstring.splits)

lemma routeSpikePayload_fields:
  "field ''title'' (stringify (routeSpikePayload p sev ts))
     = Some (JString (''['' @ cloudProvider p @ ''] '' @ severity p @ '': '' @ title p))"
  "field ''message'' (stringify (routeSpikePayload p sev ts))
     = Some (JString (case description p of
                        Str d \<Rightarrow> if d = [] then title p else d
                      | _ \<Rightarrow> title p))"
  "field ''status'' (stringify (routeSpikePayload p sev ts))
     = Some (JString (if sev = ''CRITICAL'' then ''CRITICAL'' else ''WARNING''))"
  "field ''priority'' (stringify (routeSpikePayload p sev ts))
     = Some (JString (mapSeverityToPriority (severity p)))"
  "field ''source'' (stringify (routeSpikePayload p sev ts))
     = Some (JString ''CloudGuard Security Dashboard'')"
  "field ''timestamp'' (stringify (routeSpikePayload p sev ts)) = Some (JString ts)"
  "field ''metadata'' (stringify (routeSpikePayload p sev ts))
     = Some (stringify
              (JObject
                [(''severity'', JString (severity p)),
                 (''cloudProvider'', JString (cloudProvider p)),
                 (''resource'', JString (resource p)),
                 (''resourceType'', jopt (resourceType p)),
                 (''region'', jopt (region p)),
                 (''accountName'', jopt (accountName p)),
                 (''recommendation'', jopt (recommendation p))]))"
  by (simp_all add: field_def routeSpikePayload_def orElse_def defined_def split: optstring.splits)

text \<open>
  C7 (amended). Every payload \<^verbatim>\<open>sendSpikeAlert\<close> posts has the title
  "[" + cloudProvider + "] " + upper-cased severity + ": " + finding title, and a
  payload the single-alert route posts has that title whenever the severity it
  received is already in upper case. In both, the message is the description when it is
  a non-empty string and the title otherwise; the status is CRITICAL for an upper-cased
  severity CRITICAL and WARNING otherwise; the priority is \<open>mapSeverityToPriority\<close>
  of the severity; the source is "CloudGuard Security Dashboard"; the timestamp is the
  current time written by \<^verbatim>\<open>toISOString\<close>, a string of ISO 8601 shape; and the
  metadata is what \<^verbatim>\<open>JSON.stringify\<close> writes of the object holding severity, cloud
  provider, resource, resourceType, region, accountName and recommendation: each
  optional field as its string or \<^verbatim>\<open>null\<close>, and with no key when it is undefined.
\<close>

theorem finding_alert_payload:
  "((u, b) \<in> set (newFetched tr (snd (sendSpikeAlert env uid cp acct f tr))) \<longrightarrow>
       field ''title'' b
         = Some (JString (''['' @ cp @ ''] '' @ toUpperCase (severity f) @ '': '' @ title f))
     \<and> field ''message'' b
         = Some (JString (case description f of
                            Str d \<Rightarrow> if d = [] then title f else d
                          | _ \<Rightarrow> title f))
     \<and> field ''status'' b
         = Some (JString (if toUpperCase (severity f) = ''CRITICAL'' then ''CRITICAL''
                          else ''WARNING''))
     \<and> field ''priority'' b = Some (JString (mapSeverityToPriority (severity f)))
     \<and> field ''source'' b = Some (JString ''CloudGuard Security Dashboard'')
     \<and> field ''timestamp'' b
         = Some (JString (toISOString (now env (tr @ [FindSettings uid]))))
     \<and> isISO8601 (toISOString (now env (tr @ [FindSettings uid])))
     \<and> field ''metadata'' b
         = Some (stringify
                  (JObject
                    [(''severity'', JString (severity f)),
                     (''cloudProvider'', JString cp),
                     (''resource'', JString (resource f)),
                     (''resourceType'', jopt (resourceType f)),
                     (''region'', jopt (region f)),
                     (''accountName'', JString acct),
                     (''recommendation'', jopt (recommendation f))])))
   \<and> ((v, c) \<in> set (newFetched tr (snd (spikeAlert_POST env (Some em) (Returns p) tr))) \<longrightarrow>
       (toUpperCase (severity p) = severity p \<longrightarrow>
          field ''title'' c
            = Some (JString (''['' @ cloudProvider p @ ''] '' @ toUpperCase (severity p) @ '': ''
                               @ title p)))
     \<and> field ''message'' c
         = Some (JString (case description p of
                            Str d \<Rightarrow> if d = [] then title p else d
                          | _ \<Rightarrow> title p))
     \<and> field ''status'' c
         = Some (JString (if toUpperCase (severity p) = ''CRITICAL'' then ''CRITICAL''
                          else ''WARNING''))
     \<and> field ''priority'' c = Some (JString (mapSeverityToPriority (severity p)))
     \<and> field ''source'' c = Some (JString ''CloudGuard Security Dashboard'')
     \<and> field ''timestamp'' c = Some (JString (toISOString (now env (tr @ [FindUser em]))))
     \<and> isISO8601 (toISOString (now env (tr @ [FindUser em])))
     \<and> field ''metadata'' c
         = Some (stringify
                  (JObject
                    [(''severity'', JString (severity p)),
                     (''cloudProvider'', JString (cloudProvider p)),
                     (''resource'', JString (resource p)),
                     (''resourceType'', jopt (resourceType p)),
                     (''region'', jopt (region p)),
                     (''accountName'', jopt (accountName p)),
                     (''recommendation'', jopt (recommendation p))])))"
proof (intro conjI impI)
  assume "(u, b) \<in> set (newFetched tr (snd (sendSpikeAlert env uid cp acct f tr)))"
  from sendSpikeAlert_body [OF this]
  have b: "b = stringify (spikePayload cp acct (toUpperCase (severity f)) f
                            (toISOString (now env (tr @ [FindSettings uid]))))" .
  show "field ''title'' b
         = Some (JString (''['' @ cp @ ''] '' @ toUpperCase (severity f) @ '': '' @ title f))"
    unfolding b by (rule spikePayload_title)
  show "field ''message'' b
         = Some (JString (case description f of
                            Str d \<Rightarrow> if d = [] then title f else d
                          | _ \<Rightarrow> title f))"
    unfolding b by (rule spikePayload_fields)
  show "field ''status'' b
         = Some (JString (if toUpperCase (severity f) = ''CRITICAL'' then ''CRITICAL''
                          else ''WARNING''))"
    unfolding b by (rule spikePayload_fields)
  show "field ''priority'' b = Some (JString (mapSeverityToPriority (severity f)))"
    unfolding b by (simp only: spikePayload_fields mapSeverityToPriority_upper)
  show "field ''source'' b = Some (JString ''CloudGuard Security Dashboard'')"
    unfolding b by (rule spikePayload_fields)
  show "field ''timestamp'' b
         = Some (JString (toISOString (now env (tr @ [FindSettings uid]))))"
    unfolding b by (rule spikePayload_fields)
  show "field ''metadata'' b
         = Some (stringify
                  (JObject
                    [(''severity'', JString (severity f)),
                     (''cloudProvider'', JString cp),
                     (''resource'', JString (resource f)),
                     (''resourceType'', jopt (resourceType f)),
                     (''region'', jopt (region f)),
                     (''accountName'', JString acct),
                     (''recommendation'', jopt (recommendation f))]))"
    unfolding b by (rule spikePayload_fields)
next
  show "isISO8601 (toISOString (now env (tr @ [FindSettings uid])))"
    by (rule toISOString_iso)
next
  show "isISO8601 (toISOString (now env (tr @ [FindUser em])))"
    by (rule toISOString_iso)
next
  assume "(v, c) \<in> set (newFetched tr (snd (spikeAlert_POST env (Some em) (Returns p) tr)))"
  from spikeAlert_POST_requests [OF this]
  have c: "c = stringify (routeSpikePayload p (toUpperCase (severity p))
                            (toISOString (now env (tr @ [FindUser em]))))"
    by simp
  show "field ''title'' c
            = Some (JString (''['' @ cloudProvider p @ ''] '' @ toUpperCase (severity p) @ '': ''
                               @ title p))"
    if "toUpperCase (severity p) = severity p"
    unfolding c using that by (simp only: routeSpikePayload_fields)
  show "field ''message'' c
         = Some (JString (case description p of
                            Str d \<Rightarrow> if d = [] then title p else d
                          | _ \<Rightarrow> title p))"
    unfolding c by (rule routeSpikePayload_fields)
  show "field ''status'' c
         = Some (JString (if toUpperCase (severity p) = ''CRITICAL'' then ''CRITICAL''
                          else ''WARNING''))"
    unfolding c by (rule routeSpikePayload_fields)
  show "field ''priority'' c = Some (JString (mapSeverityToPriority (severity p)))"
    unfolding c by (rule routeSpikePayload_fields)
  show "field ''source'' c = Some (JString ''CloudGuard Security Dashboard'')"
    unfolding c by (rule routeSpikePayload_fields)
  show "field ''timestamp'' c = Some (JString (toISOString (now env (tr @ [FindUser em]))))"
    unfolding c by (rule routeSpikePayload_fields)
  show "field ''metadata'' c
         = Some (stringify
                  (JObject
                    [(''severity'', JString (severity p)),
                     (''cloudProvider'', JString (cloudProvider p)),
                     (''resource'', JString (resource p)),
                     (''resourceType'', jopt (resourceType p)),
                     (''region'', jopt (region p)),
                     (''accountName'', jopt (accountName p)),
                     (''recommendation'', jopt (recommendation p))]))"
    unfolding c by (rule routeSpikePayload_fields)
qed

theorem finding_alert_payload_witness:
  "(''https://hooks.example/spike'',
      stringify (spikePayload ''AWS'' ''prod'' ''CRITICAL''
                   (sampleFinding ''critical'' (Str ''Bucket is public''))
                   ''2024-05-01T10:00:00.000Z''))
     \<in> set (newFetched [] (snd (sendSpikeAlert (envWith (Some settingsOn) 200) ''u1'' ''AWS''
                                   ''prod'' (sampleFinding ''critical'' (Str ''Bucket is public''))
                                   [])))
   \<and> field ''title''
        (stringify (spikePayload ''AWS'' ''prod'' ''CRITICAL''
                      (sampleFinding ''critical'' (Str ''Bucket is public''))
                      ''2024-05-01T10:00:00.000Z''))
      = Some (JString ''[AWS] CRITICAL: Open bucket'')
   \<and> field ''message''
        (stringify (spikePayload ''AWS'' ''prod'' ''CRITICAL''
                      (sampleFinding ''critical'' (Str ''Bucket is public''))
                      ''2024-05-01T10:00:00.000Z''))
      = Some (JString ''Bucket is public'')
   \<and> field ''timestamp''
        (stringify (spikePayload ''AWS'' ''prod'' ''CRITICAL''
                      (sampleFinding ''critical'' (Str ''Bucket is public''))
                      ''2024-05-01T10:00:00.000Z''))
      = Some (JString ''2024-05-01T10:00:00.000Z'')
   \<and> isISO8601 ''2024-05-01T10:00:00.000Z''
   \<and> field ''metadata''
        (stringify (spikePayload ''AWS'' ''prod'' ''CRITICAL''
                      (sampleFinding ''critical'' (Str ''Bucket is public''))
                      ''2024-05-01T10:00:00.000Z''))
      = Some (JObject
               [(''severity'', JString ''critical''),
                (''cloudProvider'', JString ''AWS''),
                (''resource'', JString ''bucket-1''),
                (''resourceType'', JString ''S3''),
                (''region'', JNull),
                (''accountName'', JString ''prod''),
                (''recommendation'', JNull)])
   \<and> (''https://hooks.example/spike'',
      stringify (routeSpikePayload (samplePayload ''HIGH'' Undefined) ''HIGH''
                   ''2024-05-01T10:00:00.000Z''))
     \<in> set (newFetched [] (snd (spikeAlert_POST (envWith (Some settingsOn) 200)
                                   (Some ''ann@example.org'')
                                   (Returns (samplePayload ''HIGH'' Undefined)) [])))
   \<and> field ''title''
        (stringify (routeSpikePayload (samplePayload ''HIGH'' Undefined) ''HIGH''
                      ''2024-05-01T10:00:00.000Z''))
      = Some (JString ''[AWS] HIGH: Open bucket'')
   \<and> field ''message''
        (stringify (routeSpikePayload (samplePayload ''HIGH'' Undefined) ''HIGH''
                      ''2024-05-01T10:00:00.000Z''))
      = Some (JString ''Open bucket'')
   \<and> field ''metadata''
        (stringify (routeSpikePayload (samplePayload ''HIGH'' Undefined) ''HIGH''
                      ''2024-05-01T10:00:00.000Z''))
      = Some (JObject
               [(''severity'', JString ''HIGH''),
                (''cloudProvider'', JString ''AWS''),
                (''resource'', JString ''bucket-1''),
                (''resourceType'', JString ''S3''),
                (''accountName'', JString ''prod'')])"
proof -
  let ?env = "envWith (Some settingsOn) 200"
  let ?url = "''https://hooks.example/spike''"
  let ?ts = "''2024-05-01T10:00:00.000Z''"
  let ?f = "sampleFinding ''critical'' (Str ''Bucket is public'')"
  let ?p = "samplePayload ''HIGH'' Undefined"
  let ?b = "stringify (spikePayload ''AWS'' ''prod'' ''CRITICAL'' ?f ?ts)"
  let ?c = "stringify (routeSpikePayload ?p ''HIGH'' ?ts)"
  note T = finding_alert_payload [of ?url ?b "[]" ?env "''u1''" "''AWS''" "''prod''" ?f
             ?url ?c "''ann@example.org''" ?p]
  have m1: "(?url, ?b) \<in> set (newFetched [] (snd (sendSpikeAlert ?env ''u1'' ''AWS'' ''prod'' ?f [])))"
    by code_simp
  have m2: "(?url, ?c) \<in> set (newFetched [] (snd (spikeAlert_POST ?env (Some ''ann@example.org'')
                                                   (Returns ?p) [])))"
    by code_simp
  have e1: "''['' @ ''AWS'' @ ''] '' @ toUpperCase (severity ?f) @ '': '' @ title ?f
              = ''[AWS] CRITICAL: Open bucket''"
    by code_simp
  have e2: "(case description ?f of Str d \<Rightarrow> if d = [] then title ?f else d | _ \<Rightarrow> title ?f)
              = ''Bucket is public''"
    by code_simp
  have e3: "toUpperCase (severity ?p) = severity ?p"
    by code_simp
  have e4: "''['' @ cloudProvider ?p @ ''] '' @ toUpperCase (severity ?p) @ '': '' @ title ?p
              = ''[AWS] HIGH: Open bucket''"
    by code_simp
  have e5: "(case description ?p of Str d \<Rightarrow> if d = [] then title ?p else d | _ \<Rightarrow> title ?p)
              = ''Open bucket''"
    by code_simp
  have e6: "toISOString (now ?env ([] @ [FindSettings ''u1''])) = ?ts"
    by code_simp
  have e7: "stringify
              (JObject
                [(''severity'', JString (severity ?f)),
                 (''cloudProvider'', JString ''AWS''),
                 (''resource'', JString (resource ?f)),
                 (''resourceType'', jopt (resourceType ?f)),
                 (''region'', jopt (region ?f)),
                 (''accountName'', JString ''prod''),
                 (''recommendation'', jopt (recommendation ?f))])
            = JObject
               [(''severity'', JString ''critical''),
                (''cloudProvider'', JString ''AWS''),
                (''resource'', JString ''bucket-1''),
                (''resourceType'', JString ''S3''),
                (''region'', JNull),
                (''accountName'', JString ''prod''),
                (''recommendation'', JNull)]"
    by code_simp
  have e8: "stringify
              (JObject
                [(''severity'', JString (severity ?p)),
                 (''cloudProvider'', JString (cloudProvider ?p)),
                 (''resource'', JString (resource ?p)),
                 (''resourceType'', jopt (resourceType ?p)),
                 (''region'', jopt (region ?p)),
                 (''accountName'', jopt (accountName ?p)),
                 (''recommendation'', jopt (recommendation ?p))])
            = JObject
               [(''severity'', JString ''HIGH''),
                (''cloudProvider'', JString ''AWS''),
                (''resource'', JString ''bucket-1''),
                (''resourceType'', JString ''S3''),
                (''accountName'', JString ''prod'')]"
    by code_simp
  note L = T [THEN conjunct1, THEN mp, OF m1]
  note R = T [THEN conjunct2, THEN mp, OF m2]
  note L5 = L [THEN conjunct2, THEN conjunct2, THEN conjunct2, THEN conjunct2, THEN conjunct2]
  note R5 = R [THEN conjunct2, THEN conjunct2, THEN conjunct2, THEN conjunct2, THEN conjunct2]
  from L [THEN conjunct1]
  have c1: "field ''title'' ?b = Some (JString ''[AWS] CRITICAL: Open bucket'')"
    by (simp only: e1)
  from L [THEN conjunct2, THEN conjunct1]
  have c2: "field ''message'' ?b = Some (JString ''Bucket is public'')"
    by (simp only: e2)
  from L5 [THEN conjunct1]
  have c3: "field ''timestamp'' ?b = Some (JString ?ts)"
    by (simp only: e6)
  from L5 [THEN conjunct2, THEN conjunct1]
  have c4: "isISO8601 ?ts"
    by (simp only: e6)
  from L5 [THEN conjunct2, THEN conjunct2]
  have c5: "field ''metadata'' ?b
      = Some (JObject
               [(''severity'', JString ''critical''),
                (''cloudProvider'', JString ''AWS''),
                (''resource'', JString ''bucket-1''),
                (''resourceType'', JString ''S3''),
                (''region'', JNull),
                (''accountName'', JString ''prod''),
                (''recommendation'', JNull)])"
    by (simp only: e7)
  from R [THEN conjunct1, THEN mp, OF e3]
  have c6: "field ''title'' ?c = Some (JString ''[AWS] HIGH: Open bucket'')"
    by (simp only: e4)
  from R [THEN conjunct2, THEN conjunct1]
  have c7: "field ''message'' ?c = Some (JString ''Open bucket'')"
    by (simp only: e5)
  from R5 [THEN conjunct2, THEN conjunct2]
  have c8: "field ''metadata'' ?c
      = Some (JObject
               [(''severity'', JString ''HIGH''),
                (''cloudProvider'', JString ''AWS''),
                (''resource'', JString ''bucket-1''),
                (''resourceType'', JString ''S3''),
                (''accountName'', JString ''prod'')])"
    by (simp only: e8)
  from m1 c1 c2 c3 c4 c5 m2 c6 c7 c8 show ?thesis by (intro conjI)
qed

theorem finding_alert_payload_counterexample:
  "(''https://hooks.example/spike'',
      stringify (routeSpikePayload (samplePayload ''high'' (Str [])) ''HIGH''
                   ''2024-05-01T10:00:00.000Z''))
     \<in> set (newFetched [] (snd (spikeAlert_POST (envWith (Some settingsOn) 200)
                                   (Some ''ann@example.org'')
                                   (Returns (samplePayload ''high'' (Str []))) [])))
   \<and> field ''title''
        (stringify (routeSpikePayload (samplePayload ''high'' (Str [])) ''HIGH''
                      ''2024-05-01T10:00:00.000Z''))
      = Some (JString ''[AWS] high: Open bucket'')
   \<and> toUpperCase ''high'' = ''HIGH''
   \<and> region (samplePayload ''high'' (Str [])) = Undefined
   \<and> map_option (field ''region'')
        (field ''metadata''
           (stringify (routeSpikePayload (samplePayload ''high'' (Str [])) ''HIGH''
                         ''2024-05-01T10:00:00.000Z'')))
      = Some None
   \<and> (''https://hooks.example/spike'',
      stringify (spikePayload ''AWS'' ''prod'' ''HIGH'' (sampleFinding ''HIGH'' (Str []))
                   ''2024-05-01T10:00:00.000Z''))
     \<in> set (newFetched [] (snd (sendSpikeAlert (envWith (Some settingsOn) 200) ''u1'' ''AWS''
                                   ''prod'' (sampleFinding ''HIGH'' (Str [])) [])))
   \<and> description (sampleFinding ''HIGH'' (Str [])) = Str []
   \<and> field ''message''
        (stringify (spikePayload ''AWS'' ''prod'' ''HIGH'' (sampleFinding ''HIGH'' (Str []))
                      ''2024-05-01T10:00:00.000Z''))
      = Some (JString ''Open bucket'')"
proof (intro conjI)
  show "(''https://hooks.example/spike'',
      stringify (routeSpikePayload (samplePayload ''high'' (Str [])) ''HIGH''
                   ''2024-05-01T10:00:00.000Z''))
     \<in> set (newFetched [] (snd (spikeAlert_POST (envWith (Some settingsOn) 200)
                                   (Some ''ann@example.org'')
                                   (Returns (samplePayload ''high'' (Str []))) [])))"
    by code_simp
  show "field ''title''
        (stringify (routeSpikePayload (samplePayload ''high'' (Str [])) ''HIGH''
                      ''2024-05-01T10:00:00.000Z''))
      = Some (JString ''[AWS] high: Open bucket'')"
    by code_simp
  show "toUpperCase ''high'' = ''HIGH''"
    by code_simp
  show "region (samplePayload ''high'' (Str [])) = Undefined"
    by (simp add: samplePayload_def)
  show "map_option (field ''region'')
        (field ''metadata''
           (stringify (routeSpikePayload (samplePayload ''high'' (Str [])) ''HIGH''
                         ''2024-05-01T10:00:00.000Z'')))
      = Some None"
    by code_simp
  show "(''https://hooks.example/spike'',
      stringify (spikePayload ''AWS'' ''prod'' ''HIGH'' (sampleFinding ''HIGH'' (Str []))
                   ''2024-05-01T10:00:00.000Z''))
     \<in> set (newFetched [] (snd (sendSpikeAlert (envWith (Some settingsOn) 200) ''u1'' ''AWS''
                                   ''prod'' (sampleFinding ''HIGH'' (Str [])) [])))"
    by code_simp
  show "description (sampleFinding ''HIGH'' (Str [])) = Str []"
    by (simp add: sampleFinding_def)
  show "field ''message''
        (stringify (spikePayload ''AWS'' ''prod'' ''HIGH'' (sampleFinding ''HIGH'' (Str []))
                      ''2024-05-01T10:00:00.000Z''))
      = Some (JString ''Open bucket'')"
    by code_simp
qed

subsection \<open>The audit summary alert\<close>

lemma sendAuditSummaryAlert_newFetched:
  "newFetched tr (snd (sendAuditSummaryAlert env uid cp acct summary tr))
     = (case userSettings_findUnique env tr uid of
          Throws e \<Rightarrow> []
        | Returns st \<Rightarrow>
            (case spikeTarget st of
               None \<Rightarrow> []
             | Some (s, url) \<Rightarrow>
                 if critical summary = 0 \<and> high summary = 0 then []
                 else [(url, stringify (summaryPayload cp acct summary
                  (toISOString (now env (tr @ [FindSettings uid])))))]))"
  by (auto simp: sendAuditSummaryAlert_def Let_def newFetched_def postSpike_fetched fetched_append
           split: Outcome.splits option.splits prod.splits)

lemma sendAuditSummaryAlert_true_dispatched:
  "fst (sendAuditSummaryAlert env uid cp acct summary tr) \<Longrightarrow>
   newFetched tr (snd (sendAuditSummaryAlert env uid cp acct summary tr)) \<noteq> []"
  by (simp add: sendAuditSummaryAlert_def Let_def newFetched_def postSpike_fetched fetched_append
           split: Outcome.splits option.splits prod.splits if_splits)

lemma summaryPayload_fields:
  "field ''status'' (stringify (summaryPayload cp acct summary ts))
     = Some (JString (if critical summary > 0 then ''CRITICAL'' else ''WARNING''))"
  "field ''priority'' (stringify (summaryPayload cp acct summary ts))
     = Some (JString (if critical summary > 0 then ''P1'' else ''P2''))"
  by (simp_all add: field_def summaryPayload_def)

text \<open>
  C3 (amended). When the counts \<open>critical\<close> and \<open>high\<close> of the summary are both zero,
  \<^verbatim>\<open>sendAuditSummaryAlert\<close> makes no request and returns false. When the settings exist
  with the integration enabled and a webhook URL that is neither null nor empty, it
  makes no request exactly when both counts are zero; otherwise it posts one payload to
  that URL, with status CRITICAL and priority P1 when \<open>critical > 0\<close>, and with status
  WARNING and priority P2 when \<open>critical\<close> is not positive, so in particular when
  \<open>critical = 0\<close> and \<open>high > 0\<close>. When the settings are missing, or the integration
  is disabled, or the URL is absent, it makes no request whatever the counts.
\<close>

theorem sendAuditSummaryAlert_policy:
  "(critical summary = 0 \<and> high summary = 0 \<longrightarrow>
      newFetched tr (snd (sendAuditSummaryAlert env uid cp acct summary tr)) = []
      \<and> \<not> fst (sendAuditSummaryAlert env uid cp acct summary tr))
   \<and> (userSettings_findUnique env tr uid = Returns (Some s)
       \<and> spikeEnabled s \<and> spikeWebhookUrl s = Some url \<and> url \<noteq> [] \<longrightarrow>
        ((newFetched tr (snd (sendAuditSummaryAlert env uid cp acct summary tr)) = [])
           = (critical summary = 0 \<and> high summary = 0))
        \<and> (\<not> (critical summary = 0 \<and> high summary = 0) \<longrightarrow>
             (\<exists>b. newFetched tr (snd (sendAuditSummaryAlert env uid cp acct summary tr)) = [(url, b)]
                \<and> (critical summary > 0 \<longrightarrow>
                     field ''status'' b = Some (JString ''CRITICAL'')
                     \<and> field ''priority'' b = Some (JString ''P1''))
                \<and> (\<not> critical summary > 0 \<longrightarrow>
                     field ''status'' b = Some (JString ''WARNING'')
                     \<and> field ''priority'' b = Some (JString ''P2''))
                \<and> (critical summary = 0 \<and> high summary > 0 \<longrightarrow>
                     field ''status'' b = Some (JString ''WARNING'')
                     \<and> field ''priority'' b = Some (JString ''P2'')))))
   \<and> (userSettings_findUnique env tr uid = Returns st
       \<and> (case st of
             None \<Rightarrow> True
           | Some s \<Rightarrow> \<not> spikeEnabled s \<or> \<not> truthy (spikeWebhookUrl s)) \<longrightarrow>
        newFetched tr (snd (sendAuditSummaryAlert env uid cp acct summary tr)) = []
        \<and> \<not> fst (sendAuditSummaryAlert env uid cp acct summary tr))"
proof (intro conjI impI)
  let ?R = "sendAuditSummaryAlert env uid cp acct summary tr"
  {
    assume z: "critical summary = 0 \<and> high summary = 0"
    then show n: "newFetched tr (snd ?R) = []"
      by (simp add: sendAuditSummaryAlert_newFetched split: Outcome.splits option.splits)
    with sendAuditSummaryAlert_true_dispatched [of env uid cp acct summary tr]
    show "\<not> fst ?R" by blast
  }
  {
    assume a: "userSettings_findUnique env tr uid = Returns (Some s)
       \<and> spikeEnabled s \<and> spikeWebhookUrl s = Some url \<and> url \<noteq> []"
    then have tgt: "spikeTarget (Some s) = Some (s, url)"
      by (simp add: spikeTarget_def)
    from a tgt have nf:
      "newFetched tr (snd ?R)
         = (if critical summary = 0 \<and> high summary = 0 then []
            else [(url, stringify (summaryPayload cp acct summary
                  (toISOString (now env (tr @ [FindSettings uid])))))])"
      by (simp add: sendAuditSummaryAlert_newFetched)
    show "(newFetched tr (snd ?R) = []) = (critical summary = 0 \<and> high summary = 0)"
      unfolding nf by simp
    assume nz: "\<not> (critical summary = 0 \<and> high summary = 0)"
    let ?b = "stringify (summaryPayload cp acct summary
                  (toISOString (now env (tr @ [FindSettings uid]))))"
    from nf nz have "newFetched tr (snd ?R) = [(url, ?b)]"
      by simp
    moreover have "critical summary > 0 \<longrightarrow>
                     field ''status'' ?b = Some (JString ''CRITICAL'')
                     \<and> field ''priority'' ?b = Some (JString ''P1'')"
      by (simp add: summaryPayload_fields)
    moreover have "\<not> critical summary > 0 \<longrightarrow>
                     field ''status'' ?b = Some (JString ''WARNING'')
                     \<and> field ''priority'' ?b = Some (JString ''P2'')"
      by (simp add: summaryPayload_fields)
    moreover have "critical summary = 0 \<and> high summary > 0 \<longrightarrow>
                     field ''status'' ?b = Some (JString ''WARNING'')
                     \<and> field ''priority'' ?b = Some (JString ''P2'')"
      by (simp add: summaryPayload_fields)
    ultimately show
      "\<exists>b. newFetched tr (snd ?R) = [(url, b)]
                \<and> (critical summary > 0 \<longrightarrow>
                     field ''status'' b = Some (JString ''CRITICAL'')
                     \<and> field ''priority'' b = Some (JString ''P1''))
                \<and> (\<not> critical summary > 0 \<longrightarrow>
                     field ''status'' b = Some (JString ''WARNING'')
                     \<and> field ''priority'' b = Some (JString ''P2''))
                \<and> (critical summary = 0 \<and> high summary > 0 \<longrightarrow>
                     field ''status'' b = Some (JString ''WARNING'')
                     \<and> field ''priority'' b = Some (JString ''P2''))"
      by blast
  }
  {
    assume g: "userSettings_findUnique env tr uid = Returns st
       \<and> (case st of
             None \<Rightarrow> True
           | Some s \<Rightarrow> \<not> spikeEnabled s \<or> \<not> truthy (spikeWebhookUrl s))"
    then have "spikeTarget st = None"
      by (auto simp: spikeTarget_def truthy_def split: option.splits)
    with g show n: "newFetched tr (snd ?R) = []"
      by (simp add: sendAuditSummaryAlert_newFetched)
    with sendAuditSummaryAlert_true_dispatched [of env uid cp acct summary tr]
    show "\<not> fst ?R" by blast
  }
qed

theorem sendAuditSummaryAlert_policy_witness:
  "newFetched []
     (snd (sendAuditSummaryAlert (envWith (Some settingsOn) 200) ''u1'' ''AWS'' ''prod''
             \<lparr>critical = 0, high = 0, medium = 5, low = 2, total = 7\<rparr> [])) = []
   \<and> \<not> fst (sendAuditSummaryAlert (envWith (Some settingsOn) 200) ''u1'' ''AWS'' ''prod''
             \<lparr>critical = 0, high = 0, medium = 5, low = 2, total = 7\<rparr> [])
   \<and> map (\<lambda>(u, b). (u, field ''status'' b, field ''priority'' b))
       (newFetched []
          (snd (sendAuditSummaryAlert (envWith (Some settingsOn) 200) ''u1'' ''AWS'' ''prod''
                  \<lparr>critical = 1, high = 0, medium = 0, low = 0, total = 1\<rparr> [])))
     = [(''https://hooks.example/spike'', Some (JString ''CRITICAL''), Some (JString ''P1''))]
   \<and> map (\<lambda>(u, b). (u, field ''status'' b, field ''priority'' b))
       (newFetched []
          (snd (sendAuditSummaryAlert (envWith (Some settingsOn) 200) ''u1'' ''AWS'' ''prod''
                  \<lparr>critical = 0, high = 3, medium = 0, low = 0, total = 3\<rparr> [])))
     = [(''https://hooks.example/spike'', Some (JString ''WARNING''), Some (JString ''P2''))]
   \<and> newFetched []
       (snd (sendAuditSummaryAlert (envWith None 200) ''u1'' ''AWS'' ''prod''
               \<lparr>critical = 1, high = 0, medium = 0, low = 0, total = 1\<rparr> [])) = []"
proof -
  let ?env = "envWith (Some settingsOn) 200"
  let ?url = "''https://hooks.example/spike''"
  let ?s0 = "\<lparr>critical = 0, high = 0, medium = 5, low = 2, total = 7\<rparr>"
  let ?s1 = "\<lparr>critical = 1, high = 0, medium = 0, low = 0, total = 1\<rparr>"
  let ?s2 = "\<lparr>critical = 0, high = 3, medium = 0, low = 0, total = 3\<rparr>"
  have hyp: "userSettings_findUnique ?env [] ''u1'' = Returns (Some settingsOn)
       \<and> spikeEnabled settingsOn \<and> spikeWebhookUrl settingsOn = Some ?url \<and> ?url \<noteq> []"
    by (simp add: envWith_def settingsOn_def)
  have none: "userSettings_findUnique (envWith None 200) [] ''u1'' = Returns None
       \<and> (case None of
             None \<Rightarrow> True
           | Some s \<Rightarrow> \<not> spikeEnabled s \<or> \<not> truthy (spikeWebhookUrl s))"
    by (simp add: envWith_def)
  note T0 = sendAuditSummaryAlert_policy [of ?s0 "[]" ?env "''u1''" "''AWS''" "''prod''"
              settingsOn ?url "Some settingsOn"]
  note T1 = sendAuditSummaryAlert_policy [of ?s1 "[]" ?env "''u1''" "''AWS''" "''prod''"
              settingsOn ?url "Some settingsOn"]
  note T2 = sendAuditSummaryAlert_policy [of ?s2 "[]" ?env "''u1''" "''AWS''" "''prod''"
              settingsOn ?url "Some settingsOn"]
  note T3 = sendAuditSummaryAlert_policy [of ?s1 "[]" "envWith None 200" "''u1''" "''AWS''"
              "''prod''" settingsOn ?url None]
  have z0: "critical ?s0 = 0 \<and> high ?s0 = 0" by simp
  have z1: "\<not> (critical ?s1 = 0 \<and> high ?s1 = 0)" "critical ?s1 > 0" by simp_all
  have z2: "\<not> (critical ?s2 = 0 \<and> high ?s2 = 0)" "\<not> critical ?s2 > 0" by simp_all
  from T0 [THEN conjunct1, THEN mp, OF z0]
  have c1: "newFetched [] (snd (sendAuditSummaryAlert ?env ''u1'' ''AWS'' ''prod'' ?s0 [])) = []"
    and c2: "\<not> fst (sendAuditSummaryAlert ?env ''u1'' ''AWS'' ''prod'' ?s0 [])"
    by blast+
  from T1 [THEN conjunct2, THEN conjunct1, THEN mp, OF hyp, THEN conjunct2, THEN mp, OF z1(1)] z1(2)
  obtain b1 where
    "newFetched [] (snd (sendAuditSummaryAlert ?env ''u1'' ''AWS'' ''prod'' ?s1 [])) = [(?url, b1)]"
    "field ''status'' b1 = Some (JString ''CRITICAL'')"
    "field ''priority'' b1 = Some (JString ''P1'')"
    by blast
  then have c3:
    "map (\<lambda>(u, b). (u, field ''status'' b, field ''priority'' b))
       (newFetched [] (snd (sendAuditSummaryAlert ?env ''u1'' ''AWS'' ''prod'' ?s1 [])))
     = [(?url, Some (JString ''CRITICAL''), Some (JString ''P1''))]"
    by simp
  from T2 [THEN conjunct2, THEN conjunct1, THEN mp, OF hyp, THEN conjunct2, THEN mp, OF z2(1)] z2(2)
  obtain b2 where
    "newFetched [] (snd (sendAuditSummaryAlert ?env ''u1'' ''AWS'' ''prod'' ?s2 [])) = [(?url, b2)]"
    "field ''status'' b2 = Some (JString ''WARNING'')"
    "field ''priority'' b2 = Some (JString ''P2'')"
    by blast
  then have c4:
    "map (\<lambda>(u, b). (u, field ''status'' b, field ''priority'' b))
       (newFetched [] (snd (sendAuditSummaryAlert ?env ''u1'' ''AWS'' ''prod'' ?s2 [])))
     = [(?url, Some (JString ''WARNING''), Some (JString ''P2''))]"
    by simp
  from T3 [THEN conjunct2, THEN conjunct2, THEN mp, OF none]
  have c5: "newFetched [] (snd (sendAuditSummaryAlert (envWith None 200) ''u1'' ''AWS'' ''prod''
                                  ?s1 [])) = []"
    by blast
  from c1 c2 c3 c4 c5 show ?thesis by (intro conjI)
qed

theorem sendAuditSummaryAlert_policy_counterexample:
  "\<not> (critical \<lparr>critical = 1, high = 0, medium = 0, low = 0, total = 1\<rparr> = 0
       \<and> high \<lparr>critical = 1, high = 0, medium = 0, low = 0, total = 1\<rparr> = 0)
   \<and> sendAuditSummaryAlert (envWith None 200) ''u1'' ''AWS'' ''prod''
        \<lparr>critical = 1, high = 0, medium = 0, low = 0, total = 1\<rparr> []
      = (False, [FindSettings ''u1''])"
proof (intro conjI)
  show "\<not> (critical \<lparr>critical = 1, high = 0, medium = 0, low = 0, total = 1\<rparr> = 0
       \<and> high \<lparr>critical = 1, high = 0, medium = 0, low = 0, total = 1\<rparr> = 0)"
    by simp
  show "sendAuditSummaryAlert (envWith None 200) ''u1'' ''AWS'' ''prod''
        \<lparr>critical = 1, high = 0, medium = 0, low = 0, total = 1\<rparr> []
      = (False, [FindSettings ''u1''])"
    by (simp add: sendAuditSummaryAlert_def envWith_def spikeTarget_def)
qed

subsection \<open>The settings upsert\<close>

lemma updateData_idem: "updateData body (updateData body old) = updateData body old"
  by (simp add: updateData_def nullish_def split: option.splits)

lemma updateData_createData:
  "body_spikeWebhookUrl body \<noteq> Some [] \<Longrightarrow> body_slackWebhookUrl body \<noteq> Some [] \<Longrightarrow>
   body_alertThreshold body \<noteq> Some [] \<Longrightarrow>
   updateData body (createData uid body) = createData uid body"
  by (simp add: updateData_def createData_def nullish_def orNull_def orFalse_def orElse_def
           split: option.splits)

lemma upsert_users: "users (snd (upsert db uid body)) = users db"
  by (simp add: upsert_def Let_def)

lemma upsert_row: "userSettings (snd (upsert db uid body)) uid = Some (fst (upsert db uid body))"
  by (simp add: upsert_def Let_def)

lemma upsert_twice_existing:
  "userSettings db uid = Some old \<Longrightarrow>
   snd (upsert (snd (upsert db uid body)) uid body) = snd (upsert db uid body)"
  by (simp add: upsert_def Let_def updateData_idem)

lemma upsert_twice_new:
  "userSettings db uid = None \<Longrightarrow>
   body_spikeWebhookUrl body \<noteq> Some [] \<Longrightarrow> body_slackWebhookUrl body \<noteq> Some [] \<Longrightarrow>
   body_alertThreshold body \<noteq> Some [] \<Longrightarrow>
   snd (upsert (snd (upsert db uid body)) uid body) = snd (upsert db uid body)"
  by (simp add: upsert_def Let_def updateData_createData)

lemma settings_POST_db:
  "snd (settings_POST db session request)
     = (case session of
          None \<Rightarrow> db
        | Some em \<Rightarrow>
            if em = [] then db
            else (case users db em of
                    None \<Rightarrow> db
                  | Some uid \<Rightarrow>
                      (case request of
                         Throws e \<Rightarrow> db
                       | Returns body \<Rightarrow> snd (upsert db uid body))))"
  by (simp add: settings_POST_def split: option.splits Outcome.splits prod.splits)

text \<open>
  Where the two branches of the upsert agree: a second post of the same body changes
  nothing when the user had a row before the first, or when no string of the body is
  empty.
\<close>

lemma settings_POST_twice:
  assumes "users db em = Some uid" "em \<noteq> []"
    and "userSettings db uid \<noteq> None
         \<or> (body_spikeWebhookUrl body \<noteq> Some [] \<and> body_slackWebhookUrl body \<noteq> Some []
             \<and> body_alertThreshold body \<noteq> Some [])"
  shows "snd (settings_POST (snd (settings_POST db (Some em) (Returns body)))
                (Some em) (Returns body))
          = snd (settings_POST db (Some em) (Returns body))"
proof -
  from assms have once: "snd (settings_POST db (Some em) (Returns body)) = snd (upsert db uid body)"
    by (simp add: settings_POST_db)
  from assms have twice:
    "snd (settings_POST (snd (upsert db uid body)) (Some em) (Returns body))
       = snd (upsert (snd (upsert db uid body)) uid body)"
    by (simp add: settings_POST_db upsert_users)
  have "snd (upsert (snd (upsert db uid body)) uid body) = snd (upsert db uid body)"
  proof (cases "userSettings db uid")
    case None
    with assms show ?thesis by (simp add: upsert_twice_new)
  next
    case (Some old)
    then show ?thesis by (rule upsert_twice_existing)
  qed
  with once twice show ?thesis by simp
qed

text \<open>
  C8. The settings upsert is not idempotent. For a user without a settings row and the
  body \<^verbatim>\<open>{ spikeWebhookUrl: "" }\<close> (the value \<^verbatim>\<open>GET\<close> itself answers as default), the
  first \<^verbatim>\<open>POST\<close> takes the create branch, where \<^verbatim>\<open>spikeWebhookUrl || null\<close> stores
  \<^verbatim>\<open>null\<close>; the second, identical \<^verbatim>\<open>POST\<close> takes the update branch, where
  \<^verbatim>\<open>spikeWebhookUrl ?? undefined\<close> stores the empty string. The same body with
  \<^verbatim>\<open>alertThreshold: ""\<close> stores "CRITICAL" first and the empty string second. The
  settings after two posts are not the settings after one.
\<close>

theorem settings_upsert_drift:
  "map_option spikeWebhookUrl
     (userSettings (snd (settings_POST dbNew (Some ''ann@example.org'') (Returns emptyUrlBody)))
        ''u1'')
     = Some None
   \<and> map_option spikeWebhookUrl
       (userSettings
          (snd (settings_POST
                  (snd (settings_POST dbNew (Some ''ann@example.org'') (Returns emptyUrlBody)))
                  (Some ''ann@example.org'') (Returns emptyUrlBody)))
          ''u1'')
     = Some (Some [])
   \<and> map_option alertThreshold
       (userSettings
          (snd (settings_POST dbNew (Some ''ann@example.org'') (Returns emptyThresholdBody)))
          ''u1'')
     = Some ''CRITICAL''
   \<and> map_option alertThreshold
       (userSettings
          (snd (settings_POST
                  (snd (settings_POST dbNew (Some ''ann@example.org'')
                          (Returns emptyThresholdBody)))
                  (Some ''ann@example.org'') (Returns emptyThresholdBody)))
          ''u1'')
     = Some []
   \<and> snd (settings_POST
            (snd (settings_POST dbNew (Some ''ann@example.org'') (Returns emptyUrlBody)))
            (Some ''ann@example.org'') (Returns emptyUrlBody))
     \<noteq> snd (settings_POST dbNew (Some ''ann@example.org'') (Returns emptyUrlBody))"
proof -
  let ?once = "snd (settings_POST dbNew (Some ''ann@example.org'') (Returns emptyUrlBody))"
  let ?twice = "snd (settings_POST ?once (Some ''ann@example.org'') (Returns emptyUrlBody))"
  have a: "map_option spikeWebhookUrl (userSettings ?once ''u1'') = Some None"
    by (simp add: settings_POST_def upsert_def dbNew_def Let_def createData_def orNull_def
          emptyUrlBody_def emptyBody_def)
  have b: "map_option spikeWebhookUrl (userSettings ?twice ''u1'') = Some (Some [])"
    by (simp add: settings_POST_def upsert_def dbNew_def Let_def createData_def updateData_def
          orNull_def emptyUrlBody_def emptyBody_def)
  have c: "map_option alertThreshold
       (userSettings
          (snd (settings_POST dbNew (Some ''ann@example.org'') (Returns emptyThresholdBody)))
          ''u1'')
     = Some ''CRITICAL''"
    by (simp add: settings_POST_def upsert_def dbNew_def Let_def createData_def orElse_def
          emptyThresholdBody_def emptyBody_def)
  have d: "map_option alertThreshold
       (userSettings
          (snd (settings_POST
                  (snd (settings_POST dbNew (Some ''ann@example.org'')
                          (Returns emptyThresholdBody)))
                  (Some ''ann@example.org'') (Returns emptyThresholdBody)))
          ''u1'')
     = Some []"
    by (simp add: settings_POST_def upsert_def dbNew_def Let_def createData_def updateData_def
          orElse_def nullish_def emptyThresholdBody_def emptyBody_def)
  have e: "?twice \<noteq> ?once"
  proof
    assume eq: "?twice = ?once"
    have "Some (Some []) = map_option spikeWebhookUrl (userSettings ?twice ''u1'')"
      by (simp only: b)
    also have "\<dots> = map_option spikeWebhookUrl (userSettings ?once ''u1'')"
      by (simp only: eq)
    also have "\<dots> = Some None"
      by (simp only: a)
    finally show False by simp
  qed
  from a b c d e show ?thesis by (intro conjI)
qed

text \<open>
  C10 (amended). For a user with no settings row, \<^verbatim>\<open>GET\<close> answers with the literal
  defaults, and a \<^verbatim>\<open>POST\<close> whose body omits the four keys creates the row from the
  defaults of the create branch. In both places \<open>spikeEnabled\<close> is false,
  \<open>spikeAlertOnCritical\<close> is true and \<open>spikeAlertOnHigh\<close> is false. The webhook URL is
  the empty string in the object \<^verbatim>\<open>GET\<close> answers and \<^verbatim>\<open>null\<close> in the created row.
\<close>

theorem settings_defaults:
  "users db em = Some uid \<and> em \<noteq> [] \<and> userSettings db uid = None
   \<and> body_spikeWebhookUrl body = None \<and> body_spikeEnabled body = None
   \<and> body_spikeAlertOnCritical body = None \<and> body_spikeAlertOnHigh body = None
   \<longrightarrow>
     (\<exists>s row.
          settings_GET db (Some em) = (200, JObject [(''settings'', s)])
        \<and> userSettings (snd (settings_POST db (Some em) (Returns body))) uid = Some row
        \<and> fst (settings_POST db (Some em) (Returns body))
            = (200, JObject [(''settings'', settingsJson row),
                             (''message'', JString ''Settings saved successfully'')])
        \<and> field ''spikeEnabled'' s = Some (JBool False)
        \<and> field ''spikeAlertOnCritical'' s = Some (JBool True)
        \<and> field ''spikeAlertOnHigh'' s = Some (JBool False)
        \<and> field ''spikeWebhookUrl'' s = Some (JString [])
        \<and> spikeEnabled row = False
        \<and> spikeAlertOnCritical row = True
        \<and> spikeAlertOnHigh row = False
        \<and> spikeWebhookUrl row = None
        \<and> field ''spikeEnabled'' (settingsJson row) = field ''spikeEnabled'' s
        \<and> field ''spikeAlertOnCritical'' (settingsJson row) = field ''spikeAlertOnCritical'' s
        \<and> field ''spikeAlertOnHigh'' (settingsJson row) = field ''spikeAlertOnHigh'' s
        \<and> field ''spikeWebhookUrl'' (settingsJson row) = Some JNull)"
proof (intro impI)
  assume a: "users db em = Some uid \<and> em \<noteq> [] \<and> userSettings db uid = None
   \<and> body_spikeWebhookUrl body = None \<and> body_spikeEnabled body = None
   \<and> body_spikeAlertOnCritical body = None \<and> body_spikeAlertOnHigh body = None"
  let ?row = "createData uid body"
  from a have get: "settings_GET db (Some em) = (200, JObject [(''settings'', defaultSettings)])"
    by (simp add: settings_GET_def)
  have dflt:
    "field ''spikeEnabled'' defaultSettings = Some (JBool False)"
    "field ''spikeAlertOnCritical'' defaultSettings = Some (JBool True)"
    "field ''spikeAlertOnHigh'' defaultSettings = Some (JBool False)"
    "field ''spikeWebhookUrl'' defaultSettings = Some (JString [])"
    by (simp_all add: field_def defaultSettings_def)
  from a have post:
    "settings_POST db (Some em) (Returns body)
       = ((200, JObject [(''settings'', settingsJson ?row),
                         (''message'', JString ''Settings saved successfully'')]),
          db\<lparr>userSettings := (userSettings db)(uid := Some ?row)\<rparr>)"
    by (simp add: settings_POST_def upsert_def Let_def)
  from a have flags:
    "spikeEnabled ?row = False" "spikeAlertOnCritical ?row = True"
    "spikeAlertOnHigh ?row = False" "spikeWebhookUrl ?row = None"
    by (simp_all add: createData_def orFalse_def nullish_def orNull_def)
  then have json:
    "field ''spikeEnabled'' (settingsJson ?row) = field ''spikeEnabled'' defaultSettings"
    "field ''spikeAlertOnCritical'' (settingsJson ?row)
       = field ''spikeAlertOnCritical'' defaultSettings"
    "field ''spikeAlertOnHigh'' (settingsJson ?row) = field ''spikeAlertOnHigh'' defaultSettings"
    "field ''spikeWebhookUrl'' (settingsJson ?row) = Some JNull"
    by (simp_all add: field_def settingsJson_def defaultSettings_def jnull_def)
  from post have stored:
    "userSettings (snd (settings_POST db (Some em) (Returns body))) uid = Some ?row"
    "fst (settings_POST db (Some em) (Returns body))
       = (200, JObject [(''settings'', settingsJson ?row),
                        (''message'', JString ''Settings saved successfully'')])"
    by simp_all
  from get dflt stored flags json show
    "\<exists>s row.
          settings_GET db (Some em) = (200, JObject [(''settings'', s)])
        \<and> userSettings (snd (settings_POST db (Some em) (Returns body))) uid = Some row
        \<and> fst (settings_POST db (Some em) (Returns body))
            = (200, JObject [(''settings'', settingsJson row),
                             (''message'', JString ''Settings saved successfully'')])
        \<and> field ''spikeEnabled'' s = Some (JBool False)
        \<and> field ''spikeAlertOnCritical'' s = Some (JBool True)
        \<and> field ''spikeAlertOnHigh'' s = Some (JBool False)
        \<and> field ''spikeWebhookUrl'' s = Some (JString [])
        \<and> spikeEnabled row = False
        \<and> spikeAlertOnCritical row = True
        \<and> spikeAlertOnHigh row = False
        \<and> spikeWebhookUrl row = None
        \<and> field ''spikeEnabled'' (settingsJson row) = field ''spikeEnabled'' s
        \<and> field ''spikeAlertOnCritical'' (settingsJson row) = field ''spikeAlertOnCritical'' s
        \<and> field ''spikeAlertOnHigh'' (settingsJson row) = field ''spikeAlertOnHigh'' s
        \<and> field ''spikeWebhookUrl'' (settingsJson row) = Some JNull"
    by blast
qed

theorem settings_defaults_witness:
  "settings_GET dbNew (Some ''ann@example.org'') = (200, JObject [(''settings'', defaultSettings)])
   \<and> map_option (\<lambda>row. (spikeEnabled row, spikeAlertOnCritical row, spikeAlertOnHigh row,
                         spikeWebhookUrl row))
       (userSettings (snd (settings_POST dbNew (Some ''ann@example.org'') (Returns emptyBody)))
          ''u1'')
     = Some (False, True, False, None)
   \<and> map_option (\<lambda>row. (field ''spikeEnabled'' (settingsJson row),
                         field ''spikeAlertOnCritical'' (settingsJson row),
                         field ''spikeAlertOnHigh'' (settingsJson row)))
       (userSettings (snd (settings_POST dbNew (Some ''ann@example.org'') (Returns emptyBody)))
          ''u1'')
     = Some (field ''spikeEnabled'' defaultSettings,
             field ''spikeAlertOnCritical'' defaultSettings,
             field ''spikeAlertOnHigh'' defaultSettings)"
proof -
  have hyp: "users dbNew ''ann@example.org'' = Some ''u1'' \<and> ''ann@example.org'' \<noteq> []
   \<and> userSettings dbNew ''u1'' = None
   \<and> body_spikeWebhookUrl emptyBody = None \<and> body_spikeEnabled emptyBody = None
   \<and> body_spikeAlertOnCritical emptyBody = None \<and> body_spikeAlertOnHigh emptyBody = None"
    by (simp add: dbNew_def emptyBody_def)
  from settings_defaults [of dbNew "''ann@example.org''" "''u1''" emptyBody, THEN mp, OF hyp]
  obtain s row where
    g: "settings_GET dbNew (Some ''ann@example.org'') = (200, JObject [(''settings'', s)])"
    and r: "userSettings (snd (settings_POST dbNew (Some ''ann@example.org'') (Returns emptyBody)))
              ''u1'' = Some row"
    and fl: "spikeEnabled row = False" "spikeAlertOnCritical row = True"
      "spikeAlertOnHigh row = False" "spikeWebhookUrl row = None"
    and js: "field ''spikeEnabled'' (settingsJson row) = field ''spikeEnabled'' s"
      "field ''spikeAlertOnCritical'' (settingsJson row) = field ''spikeAlertOnCritical'' s"
      "field ''spikeAlertOnHigh'' (settingsJson row) = field ''spikeAlertOnHigh'' s"
    by blast
  have c1: "settings_GET dbNew (Some ''ann@example.org'')
              = (200, JObject [(''settings'', defaultSettings)])"
    by (simp add: settings_GET_def dbNew_def)
  with g have s: "s = defaultSettings" by simp
  from r fl have c2:
    "map_option (\<lambda>row. (spikeEnabled row, spikeAlertOnCritical row, spikeAlertOnHigh row,
                         spikeWebhookUrl row))
       (userSettings (snd (settings_POST dbNew (Some ''ann@example.org'') (Returns emptyBody)))
          ''u1'')
     = Some (False, True, False, None)"
    by simp
  from r js s have c3:
    "map_option (\<lambda>row. (field ''spikeEnabled'' (settingsJson row),
                         field ''spikeAlertOnCritical'' (settingsJson row),
                         field ''spikeAlertOnHigh'' (settingsJson row)))
       (userSettings (snd (settings_POST dbNew (Some ''ann@example.org'') (Returns emptyBody)))
          ''u1'')
     = Some (field ''spikeEnabled'' defaultSettings,
             field ''spikeAlertOnCritical'' defaultSettings,
             field ''spikeAlertOnHigh'' defaultSettings)"
    by simp
  from c1 c2 c3 show ?thesis by (intro conjI)
qed

theorem settings_defaults_counterexample:
  "settings_GET dbNew (Some ''ann@example.org'') = (200, JObject [(''settings'', defaultSettings)])
   \<and> field ''spikeWebhookUrl'' defaultSettings = Some (JString [])
   \<and> map_option (\<lambda>row. field ''spikeWebhookUrl'' (settingsJson row))
       (userSettings (snd (settings_POST dbNew (Some ''ann@example.org'') (Returns emptyBody)))
          ''u1'')
     = Some (Some JNull)
   \<and> JString [] \<noteq> JNull"
proof (intro conjI)
  show "settings_GET dbNew (Some ''ann@example.org'')
          = (200, JObject [(''settings'', defaultSettings)])"
    by (simp add: settings_GET_def dbNew_def)
  show "field ''spikeWebhookUrl'' defaultSettings = Some (JString [])"
    by (simp add: field_def defaultSettings_def)
  show "map_option (\<lambda>row. field ''spikeWebhookUrl'' (settingsJson row))
       (userSettings (snd (settings_POST dbNew (Some ''ann@example.org'') (Returns emptyBody)))
          ''u1'')
     = Some (Some JNull)"
    by (simp add: settings_POST_def upsert_def dbNew_def Let_def createData_def orNull_def
          emptyBody_def settingsJson_def field_def jnull_def)
  show "JString [] \<noteq> JNull"
    by simp
qed

end
